theory Spec2Isabelle
  imports Main
begin

section \<open>Data model\<close>

text \<open>
  The development follows \<^verbatim>\<open>src/io/scene/mdl_elements/mdl_elements_module.cpp\<close>.
  Status codes are \<^verbatim>\<open>mi::Sint32\<close> values (no arithmetic is done on them), database tags
  are numbers with \<open>0\<close> as the invalid tag, and names are byte strings.
  A call that does not return normally (a null handle is dereferenced, a database element
  is accessed under the wrong class, or the work queue never empties) has the value
  \<open>None\<close>; every normal return is \<open>Some\<close>.
\<close>

type_synonym status = int
type_synonym tag = nat

subsection \<open>Types and expressions of the scene-level API\<close>

text \<open>
  The modifier bits \<^verbatim>\<open>MK_UNIFORM\<close> and \<^verbatim>\<open>MK_VARYING\<close> of a type; a bit mask is the set
  of the bits that are set, so \<^verbatim>\<open>(mods & MK_UNIFORM) != 0\<close> is membership.
\<close>

datatype modifier = MK_CONST | MK_UNIFORM | MK_VARYING

datatype type_kind =
    TK_ALIAS | TK_BOOL | TK_INT | TK_ENUM | TK_FLOAT | TK_DOUBLE | TK_STRING
  | TK_VECTOR | TK_MATRIX | TK_COLOR | TK_ARRAY | TK_STRUCT
  | TK_TEXTURE | TK_LIGHT_PROFILE | TK_BSDF_MEASUREMENT | TK_BSDF | TK_EDF | TK_VDF

record itype =
  get_kind_of_type :: type_kind
  get_all_type_modifiers :: "modifier set"

text \<open>The type of the compiler core (\<^verbatim>\<open>mi::mdl::IType\<close>): only its modifiers are read.\<close>

record mdl_type =
  get_type_modifiers :: "modifier set"

text \<open>
  An expression node. The first field is the address of the node: the analysis compares
  handles (\<^verbatim>\<open>expr == p_expr\<close>), which is pointer identity. A call refers to a function
  call or material instance stored in the database; a direct call refers to a definition
  and carries its own argument list.
\<close>

datatype expression_kind =
  EK_CONSTANT | EK_CALL | EK_PARAMETER | EK_DIRECT_CALL | EK_TEMPORARY

datatype expression =
    Constant nat itype
  | Call nat itype tag
  | Parameter nat itype
  | Direct_call nat itype tag "(string \<times> expression) list"
  | Temporary nat itype

type_synonym expression_list = "(string \<times> expression) list"
type_synonym type_list = "(string \<times> itype) list"

fun get_kind :: "expression \<Rightarrow> expression_kind" where
  "get_kind (Constant a t) = EK_CONSTANT"
| "get_kind (Call a t c) = EK_CALL"
| "get_kind (Parameter a t) = EK_PARAMETER"
| "get_kind (Direct_call a t d args) = EK_DIRECT_CALL"
| "get_kind (Temporary a t) = EK_TEMPORARY"

fun get_type :: "expression \<Rightarrow> itype" where
  "get_type (Constant a t) = t"
| "get_type (Call a t c) = t"
| "get_type (Parameter a t) = t"
| "get_type (Direct_call a t d args) = t"
| "get_type (Temporary a t) = t"

fun address :: "expression \<Rightarrow> nat" where
  "address (Constant a t) = a"
| "address (Call a t c) = a"
| "address (Parameter a t) = a"
| "address (Direct_call a t d args) = a"
| "address (Temporary a t) = a"

text \<open>\<^verbatim>\<open>IExpression_list::get_expression(name)\<close> and \<^verbatim>\<open>IType_list::get_type(name)\<close>:
  the entry of that name, or a null handle.\<close>

definition get_expression :: "expression_list \<Rightarrow> string \<Rightarrow> expression option" where
  "get_expression args name = map_of args name"

definition get_type_by_name :: "type_list \<Rightarrow> string \<Rightarrow> itype option" where
  "get_type_by_name types name = map_of types name"

record annotation =
  anno_name :: string
  anno_arguments :: expression_list

type_synonym annotation_block = "annotation list"

subsection \<open>Definitions of the compiler core\<close>

datatype operator = OK_TERNARY | OK_SELECT | OK_OTHER nat

text \<open>
  \<^verbatim>\<open>mi::mdl::IDefinition::Semantics\<close>. The operator semantics are the image of
  \<^verbatim>\<open>operator_to_semantic\<close>, and \<^verbatim>\<open>semantic_is_operator\<close> recognises exactly them.
\<close>

datatype semantics =
    DS_UNKNOWN
  | DS_INTRINSIC_DAG_FIELD_ACCESS
  | DS_INTRINSIC_DAG_ARRAY_CONSTRUCTOR
  | DS_INTRINSIC_DAG_INDEX_ACCESS
  | DS_INTRINSIC_DAG_ARRAY_LENGTH
  | DS_INTRINSIC_DAG_SET_OBJECT_ID
  | DS_INTRINSIC_DAG_SET_TRANSFORMS
  | DS_OPERATOR operator
  | DS_INTRINSIC nat

definition operator_to_semantic :: "operator \<Rightarrow> semantics" where
  "operator_to_semantic op = DS_OPERATOR op"

fun semantic_is_operator :: "semantics \<Rightarrow> bool" where
  "semantic_is_operator (DS_OPERATOR op) = True"
| "semantic_is_operator s = False"

record idefinition =
  dp_is_varying :: bool
  def_parameters :: "(string \<times> mdl_type) list"

subsection \<open>Database elements\<close>

record mdl_function_call =
  fc_function_definition :: tag
  fc_arguments :: expression_list
  fc_parameter_types :: type_list

record mdl_material_instance =
  mi_material_definition :: string
  mi_arguments :: expression_list
  mi_parameter_types :: type_list

text \<open>
  A function or material definition; \<open>d_mdl_parameter_types\<close> are the core types that
  \<^verbatim>\<open>get_mdl_parameter_type(transaction, i)\<close> reads by index, \<open>d_parameter_types\<close> the
  named scene-level types, \<open>d_semantic\<close> is meaningful for functions only.
\<close>

record mdl_definition =
  d_module :: tag
  d_prototype :: tag
  d_mdl_name :: string
  d_semantic :: semantics
  d_is_exported :: bool
  d_parameter_types :: type_list
  d_mdl_parameter_types :: "mdl_type list"
  d_mdl_return_type :: mdl_type
  d_defaults :: expression_list

text \<open>
  What the scene-level code reads of a compiled module (\<^verbatim>\<open>mi::mdl::IModule\<close>): its
  name, file name and language version, and the lookups \<^verbatim>\<open>find_signature\<close> and
  \<^verbatim>\<open>find_annotation\<close>. The database element of a module keeps it together with the
  tags of the imports and the database names of its functions and materials.
\<close>

record module_info =
  mod_name :: string
  mod_filename :: string
  mod_version :: "int \<times> int"
  mod_signatures :: "(string \<times> idefinition) list"
  mod_annotations :: "((string \<times> string) \<times> idefinition) list"

record mdl_module_element =
  m_module :: module_info
  m_imports :: "tag list"
  m_functions :: "string list"
  m_materials :: "string list"

datatype db_element =
    Mdl_module mdl_module_element
  | Mdl_function_definition mdl_definition
  | Mdl_material_definition mdl_definition
  | Mdl_function_call mdl_function_call
  | Mdl_material_instance mdl_material_instance
  | Other_element

datatype class_id =
    ID_MDL_MODULE | ID_MDL_FUNCTION_DEFINITION | ID_MDL_MATERIAL_DEFINITION
  | ID_MDL_FUNCTION_CALL | ID_MDL_MATERIAL_INSTANCE | ID_OTHER

fun class_of :: "db_element \<Rightarrow> class_id" where
  "class_of (Mdl_module m) = ID_MDL_MODULE"
| "class_of (Mdl_function_definition d) = ID_MDL_FUNCTION_DEFINITION"
| "class_of (Mdl_material_definition d) = ID_MDL_MATERIAL_DEFINITION"
| "class_of (Mdl_function_call c) = ID_MDL_FUNCTION_CALL"
| "class_of (Mdl_material_instance i) = ID_MDL_MATERIAL_INSTANCE"
| "class_of Other_element = ID_OTHER"

subsection \<open>The transaction\<close>

text \<open>
  Modelled from the spec: the transaction (\<^verbatim>\<open>DB::Transaction\<close>) is not part of the
  sources. Section 6 describes it as a name-to-identity registry with
  \<^verbatim>\<open>name_to_identity\<close>, \<^verbatim>\<open>kind_of\<close>, \<^verbatim>\<open>reserve_identity\<close>, \<^verbatim>\<open>store\<close> and
  \<^verbatim>\<open>store_local\<close>. A state is the list of name registrations and the list of stored
  elements, newest first, and the next free tag. A local store keeps the element under
  its tag but leaves the name out of the browsable namespace.
\<close>

record transaction =
  db_names :: "(string \<times> tag) list"
  db_elements :: "(tag \<times> db_element) list"
  db_next_tag :: tag

definition name_to_tag :: "transaction \<Rightarrow> string \<Rightarrow> tag" where
  "name_to_tag db name = (case map_of (db_names db) name of None \<Rightarrow> 0 | Some t \<Rightarrow> t)"

definition access :: "transaction \<Rightarrow> tag \<Rightarrow> db_element option" where
  "access db t = map_of (db_elements db) t"

definition get_class_id :: "transaction \<Rightarrow> tag \<Rightarrow> class_id" where
  "get_class_id db t = (case access db t of None \<Rightarrow> ID_OTHER | Some e \<Rightarrow> class_of e)"

definition reserve_tag :: "transaction \<Rightarrow> tag \<times> transaction" where
  "reserve_tag db =
     (let t = max 1 (db_next_tag db) in (t, db\<lparr>db_next_tag := Suc t\<rparr>))"

definition store_at :: "transaction \<Rightarrow> tag \<Rightarrow> db_element \<Rightarrow> string \<Rightarrow> transaction" where
  "store_at db t e name =
     db\<lparr>db_names := (name, t) # db_names db, db_elements := (t, e) # db_elements db\<rparr>"

definition store :: "transaction \<Rightarrow> db_element \<Rightarrow> string \<Rightarrow> tag \<times> transaction" where
  "store db e name = (case reserve_tag db of (t, db') \<Rightarrow> (t, store_at db' t e name))"

definition store_for_reference_counting ::
  "transaction \<Rightarrow> tag \<Rightarrow> db_element \<Rightarrow> string \<Rightarrow> transaction" where
  "store_for_reference_counting db t e name = db\<lparr>db_elements := (t, e) # db_elements db\<rparr>"

section \<open>The path resolver\<close>

text \<open>
  \<^verbatim>\<open>find_path\<close> cuts the path at each \<^verbatim>\<open>'.'\<close>. \<open>path_param\<close> is the text before the
  first dot (\<^verbatim>\<open>path.substr(0, pos)\<close>); \<open>path_rest\<close> is the text after it, or \<open>None\<close>
  when \<^verbatim>\<open>find\<close> returns \<^verbatim>\<open>npos\<close>.
\<close>

definition path_param :: "string \<Rightarrow> string" where
  "path_param path = takeWhile (\<lambda>c. c \<noteq> CHR ''.'') path"

definition path_rest :: "string \<Rightarrow> string option" where
  "path_rest path =
     (case dropWhile (\<lambda>c. c \<noteq> CHR ''.'') path of [] \<Rightarrow> None | c # rest \<Rightarrow> Some rest)"

text \<open>One step of the loop of \<^verbatim>\<open>find_path\<close>: the argument \<open>arg\<close> of the current node.\<close>

fun find_argument :: "transaction \<Rightarrow> expression \<Rightarrow> string \<Rightarrow> expression option" where
  "find_argument db (Call a t c) arg =
     (case access db c of
        Some (Mdl_function_call fcall) \<Rightarrow> get_expression (fc_arguments fcall) arg
      | Some (Mdl_material_instance mat_def) \<Rightarrow> get_expression (mi_arguments mat_def) arg
      | _ \<Rightarrow> None)"
| "find_argument db (Direct_call a t d args) arg = get_expression args arg"
| "find_argument db e arg = None"

function find_path_loop ::
  "transaction \<Rightarrow> expression \<Rightarrow> string option \<Rightarrow> expression option" where
  "find_path_loop db expr None = Some expr"
| "find_path_loop db expr (Some rest) =
     (case find_argument db expr (path_param rest) of
        None \<Rightarrow> None
      | Some e \<Rightarrow> find_path_loop db e (path_rest rest))"
  by pat_completeness auto

termination find_path_loop
proof (relation "measure (\<lambda>(db, e, p). case p of None \<Rightarrow> 0 | Some s \<Rightarrow> Suc (length s))")
  show "wf (measure (\<lambda>(db, e, p). case p of None \<Rightarrow> 0 | Some s \<Rightarrow> Suc (length s)))"
    by simp
next
  fix db :: transaction and expr :: expression and rest :: string and x2 :: expression
  have "length r < length rest" if "path_rest rest = Some r" for r
  proof -
    from that obtain c where "dropWhile (\<lambda>c. c \<noteq> CHR ''.'') rest = c # r"
      by (auto simp: path_rest_def split: list.splits)
    then have "length (dropWhile (\<lambda>c. c \<noteq> CHR ''.'') rest) = Suc (length r)"
      by simp
    moreover have "length (dropWhile (\<lambda>c. c \<noteq> CHR ''.'') rest) \<le> length rest"
      by (rule length_dropWhile_le)
    ultimately show ?thesis by simp
  qed
  then show "((db, x2, path_rest rest), (db, expr, Some rest))
          \<in> measure (\<lambda>(db, e, p). case p of None \<Rightarrow> 0 | Some s \<Rightarrow> Suc (length s))"
    by (cases "path_rest rest") auto
qed

definition find_path :: "transaction \<Rightarrow> string \<Rightarrow> expression_list \<Rightarrow> expression option" where
  "find_path db path args =
     (case get_expression args (path_param path) of
        None \<Rightarrow> None
      | Some expr \<Rightarrow> find_path_loop db expr (path_rest path))"

section \<open>The uniform analysis\<close>

text \<open>
  \<^verbatim>\<open>is_uniform_function\<close>. The module of the definition is accessed first; the result
  is \<open>None\<close> when that tag is not a module.
\<close>

definition is_uniform_function :: "transaction \<Rightarrow> mdl_definition \<Rightarrow> bool option" where
  "is_uniform_function db fdef =
     (case access db (d_module fdef) of
        Some (Mdl_module module) \<Rightarrow>
          Some (case d_semantic fdef of
              DS_INTRINSIC_DAG_FIELD_ACCESS \<Rightarrow> True
            | DS_INTRINSIC_DAG_ARRAY_CONSTRUCTOR \<Rightarrow> True
            | DS_INTRINSIC_DAG_INDEX_ACCESS \<Rightarrow> True
            | DS_INTRINSIC_DAG_ARRAY_LENGTH \<Rightarrow> True
            | DS_INTRINSIC_DAG_SET_OBJECT_ID \<Rightarrow> True
            | DS_INTRINSIC_DAG_SET_TRANSFORMS \<Rightarrow> True
            | sema \<Rightarrow>
                if semantic_is_operator sema then True
                else (case map_of (mod_signatures (m_module module)) (d_mdl_name fdef) of
                        None \<Rightarrow> False
                      | Some def \<Rightarrow> \<not> dp_is_varying def))
      | _ \<Rightarrow> None)"

text \<open>An entry of the work queue: the expression and whether it must be uniform.\<close>

type_synonym entry = "expression \<times> bool"

text \<open>
  What one iteration of the \<^verbatim>\<open>while\<close> loop does after popping an entry: it goes on
  with a new queue, returns from \<^verbatim>\<open>can_enforce_uniform\<close>, or does not return normally.
\<close>

datatype step = Continue "entry list" | Return bool | Abort

text \<open>
  The block that computes \<^verbatim>\<open>auto_must_be_uniform\<close>, the same in both call branches:
  \<open>Inr\<close> is the flag, \<open>Inl\<close> leaves the loop.
\<close>

definition auto_must_be_uniform ::
  "transaction \<Rightarrow> bool \<Rightarrow> itype \<Rightarrow> mdl_definition \<Rightarrow> step + bool" where
  "auto_must_be_uniform db is_uniform ret_tp def =
     (if is_uniform then
        (if MK_UNIFORM \<in> get_all_type_modifiers ret_tp then Inr False
         else (case is_uniform_function db def of
                 None \<Rightarrow> Inl Abort
               | Some False \<Rightarrow> Inl (Return False)
               | Some True \<Rightarrow> Inr True))
      else Inr False)"

text \<open>
  The two loops that push all arguments. \<open>i\<close> is the index of the first argument of the
  list; \<^verbatim>\<open>get_mdl_parameter_type(transaction, i)\<close> has no type outside the parameter
  list of the definition, and the entry is built from that type, so such a call does not
  return normally. Only the loop of the \<^verbatim>\<open>EK_CALL\<close> branch knows the ternary operator.
\<close>

fun push_call_arguments ::
  "bool \<Rightarrow> bool \<Rightarrow> mdl_type list \<Rightarrow> nat \<Rightarrow> expression_list \<Rightarrow> entry list option" where
  "push_call_arguments is_ternary auto_mbu ptypes i [] = Some []"
| "push_call_arguments is_ternary auto_mbu ptypes i ((name, expr) # args) =
     (if i < length ptypes then
        (let mods = get_type_modifiers (ptypes ! i);
             p_is_uniform = (if is_ternary \<and> i = 0 then True else MK_UNIFORM \<in> mods);
             p_is_varying = (if is_ternary \<and> i = 0 then False else MK_VARYING \<in> mods)
         in map_option (\<lambda>es. (expr, \<not> p_is_varying \<and> (auto_mbu \<or> p_is_uniform)) # es)
              (push_call_arguments is_ternary auto_mbu ptypes (Suc i) args))
      else None)"

fun push_direct_call_arguments ::
  "bool \<Rightarrow> mdl_type list \<Rightarrow> nat \<Rightarrow> expression_list \<Rightarrow> entry list option" where
  "push_direct_call_arguments auto_mbu ptypes i [] = Some []"
| "push_direct_call_arguments auto_mbu ptypes i ((name, expr) # args) =
     (if i < length ptypes then
        (let mods = get_type_modifiers (ptypes ! i);
             p_is_uniform = (MK_UNIFORM \<in> mods);
             p_is_varying = (MK_VARYING \<in> mods)
         in map_option (\<lambda>es. (expr, \<not> p_is_varying \<and> (auto_mbu \<or> p_is_uniform)) # es)
              (push_direct_call_arguments auto_mbu ptypes (Suc i) args))
      else None)"

text \<open>
  The \<^verbatim>\<open>switch\<close> on the kind of the popped expression; \<open>queue\<close> is the queue after the
  pop. The assertions of the source are debug checks; the branch returns what the
  statement after the assertion returns.
\<close>

fun loop_body :: "transaction \<Rightarrow> entry \<Rightarrow> entry list \<Rightarrow> step" where
  "loop_body db (Constant a t, is_uniform) queue = Continue queue"
| "loop_body db (Call a ret_tp c, is_uniform) queue =
     (case access db c of
        Some (Mdl_material_instance inst) \<Rightarrow>
          (if is_uniform then Return False else Continue queue)
      | Some (Mdl_function_call fcall) \<Rightarrow>
          (case access db (fc_function_definition fcall) of
             Some (Mdl_function_definition def) \<Rightarrow>
               (case auto_must_be_uniform db is_uniform ret_tp def of
                  Inl s \<Rightarrow> s
                | Inr auto_mbu \<Rightarrow>
                    (case push_call_arguments
                            (d_semantic def = operator_to_semantic OK_TERNARY) auto_mbu
                            (d_mdl_parameter_types def) 0 (fc_arguments fcall) of
                       None \<Rightarrow> Abort
                     | Some es \<Rightarrow> Continue (queue @ es)))
           | _ \<Rightarrow> Abort)
      | _ \<Rightarrow> Return False)"
| "loop_body db (Parameter a t, is_uniform) queue = Return False"
| "loop_body db (Direct_call a ret_tp d args, is_uniform) queue =
     (case access db d of
        Some (Mdl_material_definition mat) \<Rightarrow> Return False
      | Some (Mdl_function_definition def) \<Rightarrow>
          (case auto_must_be_uniform db is_uniform ret_tp def of
             Inl s \<Rightarrow> s
           | Inr auto_mbu \<Rightarrow>
               (case push_direct_call_arguments auto_mbu (d_mdl_parameter_types def) 0 args of
                  None \<Rightarrow> Abort
                | Some es \<Rightarrow> Continue (queue @ es)))
      | _ \<Rightarrow> Return False)"
| "loop_body db (Temporary a t, is_uniform) queue = Return False"

text \<open>
  The loop. The state is the queue and \<^verbatim>\<open>must_be_uniform\<close>; the result is the returned
  flag and the final \<^verbatim>\<open>must_be_uniform\<close>, which the caller sees whatever is returned.
  The queue need not empty (stored calls may refer to each other in a cycle), so the
  loop is a partial function.
\<close>

partial_function (option) uniform_loop ::
  "transaction \<Rightarrow> expression \<Rightarrow> entry list \<Rightarrow> bool \<Rightarrow> (bool \<times> bool) option" where
  "uniform_loop db p_expr queue must_be_uniform =
     (case queue of
        [] \<Rightarrow> Some (True, must_be_uniform)
      | e # q \<Rightarrow>
          (case loop_body db e q of
             Continue q' \<Rightarrow>
               uniform_loop db p_expr q'
                 (must_be_uniform \<or> (snd e \<and> address (fst e) = address p_expr))
           | Return r \<Rightarrow>
               Some (r, must_be_uniform \<or> (snd e \<and> address (fst e) = address p_expr))
           | Abort \<Rightarrow> None))"

declare uniform_loop.simps [code]

text \<open>The entry that seeds the queue: the argument of the first path segment, required
  uniform iff the type of that parameter carries \<^verbatim>\<open>MK_UNIFORM\<close>.\<close>

definition seed_entry :: "expression_list \<Rightarrow> type_list \<Rightarrow> string \<Rightarrow> entry option" where
  "seed_entry args param_types path =
     (case get_type_by_name param_types (path_param path) of
        None \<Rightarrow> None
      | Some p_type \<Rightarrow>
          (case get_expression args (path_param path) of
             None \<Rightarrow> None
           | Some expr \<Rightarrow> Some (expr, MK_UNIFORM \<in> get_all_type_modifiers p_type)))"

definition can_enforce_uniform ::
  "transaction \<Rightarrow> expression_list \<Rightarrow> type_list \<Rightarrow> string \<Rightarrow> expression
     \<Rightarrow> (bool \<times> bool) option" where
  "can_enforce_uniform db args param_types path p_expr =
     (case seed_entry args param_types path of
        None \<Rightarrow> None
      | Some e \<Rightarrow> uniform_loop db p_expr [e] False)"

text \<open>
  The states the loop runs through: \<open>loop_next\<close> is one iteration that goes on, and
  \<open>pops db p e0 e\<close> says that the loop seeded with \<open>e0\<close> pops the entry \<open>e\<close> at some
  iteration.
\<close>

definition loop_next ::
  "transaction \<Rightarrow> expression \<Rightarrow> entry list \<times> bool \<Rightarrow> (entry list \<times> bool) option" where
  "loop_next db p_expr s =
     (case fst s of
        [] \<Rightarrow> None
      | e # q \<Rightarrow>
          (case loop_body db e q of
             Continue q' \<Rightarrow> Some (q', snd s \<or> (snd e \<and> address (fst e) = address p_expr))
           | _ \<Rightarrow> None))"

definition loop_reaches ::
  "transaction \<Rightarrow> expression \<Rightarrow> entry list \<times> bool \<Rightarrow> entry list \<times> bool \<Rightarrow> bool" where
  "loop_reaches db p_expr s s' = (\<lambda>a b. loop_next db p_expr a = Some b)\<^sup>*\<^sup>* s s'"

definition pops :: "transaction \<Rightarrow> expression \<Rightarrow> entry \<Rightarrow> entry \<Rightarrow> bool" where
  "pops db p_expr e0 e = (\<exists>q m. loop_reaches db p_expr ([e0], False) (e # q, m))"


section \<open>The module under construction\<close>

text \<open>
  The syntax tree that \<^verbatim>\<open>add_variant\<close> and \<^verbatim>\<open>add_material\<close> build with the factories
  of the new module. Only what the functions set is kept: names are strings, the
  converted form of a scene expression is the expression itself under \<open>Converted\<close>,
  and the \<open>i\<close>-th temporary of a let is \<open>Temporary_reference i\<close>.
\<close>

datatype qualifier = FQ_NONE | FQ_VARYING | FQ_UNIFORM

datatype type_name_of = Named_type string | Scene_type itype | Core_type mdl_type

record type_name =
  tn_of :: type_name_of
  tn_qualifier :: qualifier

definition set_qualifier :: "qualifier \<Rightarrow> type_name \<Rightarrow> type_name" where
  "set_qualifier q tn = tn\<lparr>tn_qualifier := q\<rparr>"

datatype ast_expression =
    Converted expression
  | Reference string
  | Temporary_reference nat
  | Call_expression ast_expression "(string \<times> ast_expression) list"
  | Let_expression "(type_name \<times> nat \<times> ast_expression option) list" ast_expression

record ast_annotation =
  aa_name :: string
  aa_arguments :: "(string \<times> expression) list"

type_synonym ast_annotation_block = "ast_annotation list"

record ast_parameter =
  ap_type_name :: type_name
  ap_name :: string
  ap_init :: "ast_expression option"
  ap_annotations :: "ast_annotation_block option"

record declaration_function =
  df_return_type :: type_name
  df_name :: string
  df_is_clone :: bool
  df_body :: ast_expression
  df_annotations :: "ast_annotation_block option"
  df_is_exported :: bool
  df_parameters :: "ast_parameter list"

text \<open>What the symbol importer was asked to collect imports for.\<close>

datatype import_item =
    Imports_of_expression ast_expression
  | Imports_of_annotations ast_annotation_block
  | Used_user_types

type_synonym symbol_importer = "import_item list"

datatype mdl_version =
  MDL_VERSION_1_0 | MDL_VERSION_1_1 | MDL_VERSION_1_2 | MDL_VERSION_1_3 | MDL_VERSION_1_4

text \<open>
  Modelled from the spec: the enumeration \<^verbatim>\<open>mi::mdl::IMDL::MDL_version\<close> is not part of
  the sources. \<^verbatim>\<open>MDL_LATEST_VERSION\<close> is "the newest known version"; 1.4 is the newest
  one that the sources name.
\<close>

definition MDL_LATEST_VERSION :: mdl_version where
  "MDL_LATEST_VERSION = MDL_VERSION_1_4"

record ast_module =
  am_name :: string
  am_version :: mdl_version
  am_declarations :: "declaration_function list"
  am_imports :: "import_item list"

definition add_declaration :: "declaration_function \<Rightarrow> ast_module \<Rightarrow> ast_module" where
  "add_declaration d module = module\<lparr>am_declarations := am_declarations module @ [d]\<rparr>"

section \<open>Compiled modules and the compiler services\<close>

text \<open>
  The code that the DAG generator yields for a module: the number of error messages and
  the function and material entries, each with its name and the definition that the
  database element is built from.
\<close>

record generated_code =
  gc_error_message_count :: nat
  gc_functions :: "(string \<times> mdl_definition) list"
  gc_materials :: "(string \<times> mdl_definition) list"

text \<open>
  A loaded module (\<^verbatim>\<open>mi::mdl::IModule\<close>) with its imports. The results of
  \<^verbatim>\<open>restore_import_entries\<close> and of the DAG generator for the module are fields.
\<close>

datatype imodule =
  IModule (get_info: module_info) (is_valid: bool) (restore_import_entries: bool)
          (compile: "generated_code option") (get_imports: "imodule list")

definition get_name :: "imodule \<Rightarrow> string" where
  "get_name m = mod_name (get_info m)"

text \<open>
  The functions of the compiler and of the other translation units that the file calls
  and that are not part of the sources. They are parameters of the model. The first
  argument of \<open>transform_expr\<close> are the parameters that are declared in the AST builder
  at the time of the call (\<^verbatim>\<open>declare_parameter\<close>, \<^verbatim>\<open>remove_parameters\<close>).
\<close>

record services =
  is_valid_mdl_identifier :: "string \<Rightarrow> bool"
  load_module :: "transaction \<Rightarrow> string \<Rightarrow> imodule option"
  load_module_from_stream :: "transaction \<Rightarrow> string \<Rightarrow> string \<Rightarrow> imodule option"
  analyze :: "transaction \<Rightarrow> ast_module \<Rightarrow> imodule"
  create_type_name :: "itype \<Rightarrow> type_name"
  create_core_type_name :: "mdl_type \<Rightarrow> type_name"
  argument_type_matches_parameter_type :: "itype \<Rightarrow> itype \<Rightarrow> bool"
  int_expr_to_mdl_ast_expr :: "mdl_type \<Rightarrow> expression \<Rightarrow> ast_expression option"
  transform_expr :: "(string \<times> expression) list \<Rightarrow> expression \<Rightarrow> ast_expression option"
  int_value_to_mdl_value :: "mdl_type \<Rightarrow> expression \<Rightarrow> bool"

text \<open>
  \<^verbatim>\<open>add_mdl_db_prefix\<close> is not part of the sources; \<^verbatim>\<open>add_annotation\<close> skips the
  three characters \<^verbatim>\<open>mdl\<close> and the five characters \<^verbatim>\<open>mdl::\<close> that it puts in front
  of a name starting with \<^verbatim>\<open>::\<close>.
\<close>

definition add_mdl_db_prefix :: "string \<Rightarrow> string" where
  "add_mdl_db_prefix name = ''mdl'' @ name"

section \<open>Annotations\<close>

definition find_char :: "char \<Rightarrow> string \<Rightarrow> nat option" where
  "find_char c s = (if c \<in> set s then Some (length (takeWhile (\<lambda>x. x \<noteq> c) s)) else None)"

definition substr :: "string \<Rightarrow> nat \<Rightarrow> nat \<Rightarrow> string" where
  "substr s pos n = take n (drop pos s)"

text \<open>\<^verbatim>\<open>rfind("::")\<close>: the last position where the two characters start.\<close>

definition rfind_scope :: "string \<Rightarrow> nat option" where
  "rfind_scope s =
     (case filter (\<lambda>i. substr s i 2 = ''::'') (rev [0..<length s]) of
        [] \<Rightarrow> None
      | i # _ \<Rightarrow> Some i)"

text \<open>
  The loop over the arguments of an annotation: every argument must be a constant, have
  a parameter of its name and a convertible value. \<open>i\<close> is the index of the first
  argument of the list; the single argument \<^verbatim>\<open>"argument"\<close> of string type takes the
  name of the single parameter.
\<close>

fun convert_annotation_arguments ::
  "services \<Rightarrow> (string \<times> mdl_type) list \<Rightarrow> nat \<Rightarrow> nat \<Rightarrow> expression_list
     \<Rightarrow> (string \<times> expression) list option" where
  "convert_annotation_arguments mdl params argument_count i [] = Some []"
| "convert_annotation_arguments mdl params argument_count i ((arg_name, arg_expr) # args) =
     (if get_kind arg_expr \<noteq> EK_CONSTANT then None
      else
        (let name =
               (if i = 0 \<and> length params = 1 \<and> argument_count = 1
                   \<and> arg_name = ''argument''
                   \<and> get_kind_of_type (get_type arg_expr) = TK_STRING
                then fst (hd params) else arg_name)
         in case map_of (rev params) name of
              None \<Rightarrow> None
            | Some mdl_parameter_type \<Rightarrow>
                if \<not> int_value_to_mdl_value mdl mdl_parameter_type arg_expr then None
                else map_option (\<lambda>rest. (name, arg_expr) # rest)
                       (convert_annotation_arguments mdl params argument_count (Suc i) args)))"

text \<open>
  \<^verbatim>\<open>add_annotation\<close>: \<open>Inl\<close> is the error status, \<open>Inr\<close> the annotation that is
  appended to the block when the status is 0. The qualified name of the annotation is
  kept as the name without the signature.
\<close>

definition add_annotation ::
  "transaction \<Rightarrow> services \<Rightarrow> string \<Rightarrow> expression_list
     \<Rightarrow> (status + ast_annotation) option" where
  "add_annotation db mdl annotation_name annotation_args =
     (if take 2 annotation_name \<noteq> ''::'' then Some (Inl (-10))
      else
        (let annotation_name_str = add_mdl_db_prefix annotation_name in
         case find_char CHR ''('' annotation_name_str of
           None \<Rightarrow> Some (Inl (-10))
         | Some left_paren \<Rightarrow>
             (case rfind_scope (substr annotation_name_str 0 left_paren) of
                None \<Rightarrow> Some (Inl (-10))
              | Some last_double_colon \<Rightarrow>
                  (let anno_db_module_tag =
                         name_to_tag db
                           (substr (substr annotation_name_str 0 left_paren) 0 last_double_colon)
                   in if anno_db_module_tag = 0 then Some (Inl (-10))
                      else
                        (case access db anno_db_module_tag of
                           Some (Mdl_module anno_db_module) \<Rightarrow>
                             (case map_of (mod_annotations (m_module anno_db_module))
                                     (substr annotation_name_str 3 (left_paren - 3),
                                      substr annotation_name_str (left_paren + 1)
                                        (length annotation_name_str - left_paren - 2)) of
                                None \<Rightarrow> Some (Inl (-10))
                              | Some definition \<Rightarrow>
                                  (case convert_annotation_arguments mdl
                                          (def_parameters definition)
                                          (length annotation_args) 0 annotation_args of
                                     None \<Rightarrow> Some (Inl (-9))
                                   | Some arguments \<Rightarrow>
                                       Some (Inr
                                         \<lparr>aa_name =
                                            substr annotation_name_str 3 (left_paren - 3),
                                          aa_arguments = arguments\<rparr>)))
                         | _ \<Rightarrow> None)))))"

fun add_annotations ::
  "transaction \<Rightarrow> services \<Rightarrow> annotation_block \<Rightarrow> ast_annotation_block
     \<Rightarrow> (status \<times> ast_annotation_block) option" where
  "add_annotations db mdl [] block = Some (0, block)"
| "add_annotations db mdl (anno # annos) block =
     (case add_annotation db mdl (anno_name anno) (anno_arguments anno) of
        None \<Rightarrow> None
      | Some (Inl result) \<Rightarrow> Some (result, block)
      | Some (Inr a) \<Rightarrow> add_annotations db mdl annos (block @ [a]))"

text \<open>
  \<^verbatim>\<open>create_annotations\<close>: the status, the created block (null for a null input) and the
  importer, which collects the imports of the block on success.
\<close>

definition create_annotations ::
  "transaction \<Rightarrow> services \<Rightarrow> annotation_block option \<Rightarrow> symbol_importer
     \<Rightarrow> (status \<times> ast_annotation_block option \<times> symbol_importer) option" where
  "create_annotations db mdl annotation_block symbol_importer =
     (case annotation_block of
        None \<Rightarrow> Some (0, None, symbol_importer)
      | Some annos \<Rightarrow>
          (case add_annotations db mdl annos [] of
             None \<Rightarrow> None
           | Some (result, block) \<Rightarrow>
               if result \<noteq> 0 then Some (result, Some block, symbol_importer)
               else Some (0, Some block, symbol_importer @ [Imports_of_annotations block])))"

section \<open>Synthesis of variants and materials\<close>

subsection \<open>Variants\<close>

text \<open>The class \<^verbatim>\<open>T\<close> of the prototype: a material or a function definition.\<close>

datatype definition_kind = Material_kind | Function_kind

text \<open>
  A prototype that is itself a variant is replaced by its own prototype; the access
  does not return normally when that tag has no element of the class \<^verbatim>\<open>T\<close>.
\<close>

definition dereference_prototype ::
  "transaction \<Rightarrow> definition_kind \<Rightarrow> mdl_definition \<Rightarrow> mdl_definition option" where
  "dereference_prototype db kind prototype =
     (if d_prototype prototype = 0 then Some prototype
      else
        (case access db (d_prototype prototype) of
           Some (Mdl_material_definition d) \<Rightarrow> if kind = Material_kind then Some d else None
         | Some (Mdl_function_definition d) \<Rightarrow> if kind = Function_kind then Some d else None
         | _ \<Rightarrow> None))"

text \<open>
  The loop that checks the provided defaults in their order: status 0 when every name is
  a parameter and every type matches, else the status of the first default that fails.
\<close>

fun check_defaults :: "services \<Rightarrow> type_list \<Rightarrow> expression_list \<Rightarrow> status" where
  "check_defaults mdl expected_types [] = 0"
| "check_defaults mdl expected_types ((name, dflt) # defaults) =
     (case get_type_by_name expected_types name of
        None \<Rightarrow> -6
      | Some expected_type \<Rightarrow>
          if \<not> argument_type_matches_parameter_type mdl (get_type dflt) expected_type
          then -7
          else check_defaults mdl expected_types defaults)"

text \<open>
  The loop over the parameters of the prototype that converts the provided defaults
  into the arguments of the call; \<open>i\<close> is the index of the first name of the list,
  \<open>arguments\<close> are the arguments added to the call so far. The imports of every
  converted default are collected at once, so the importer has them also when a later
  default cannot be converted and the loop returns \<open>-8\<close>.
\<close>

fun variant_arguments ::
  "services \<Rightarrow> expression_list \<Rightarrow> mdl_type list \<Rightarrow> nat \<Rightarrow> string list
     \<Rightarrow> (string \<times> ast_expression) list \<Rightarrow> symbol_importer
     \<Rightarrow> (status \<times> (string \<times> ast_expression) list \<times> symbol_importer) option" where
  "variant_arguments mdl defaults ptypes i [] arguments importer =
     Some (0, arguments, importer)"
| "variant_arguments mdl defaults ptypes i (arg_name # names) arguments importer =
     (case get_expression defaults arg_name of
        None \<Rightarrow> variant_arguments mdl defaults ptypes (Suc i) names arguments importer
      | Some dflt \<Rightarrow>
          if i < length ptypes then
            (case int_expr_to_mdl_ast_expr mdl (ptypes ! i) dflt of
               None \<Rightarrow> Some (-8, arguments, importer)
             | Some arg_expr \<Rightarrow>
                 variant_arguments mdl defaults ptypes (Suc i) names
                   (arguments @ [(arg_name, arg_expr)])
                   (importer @ [Imports_of_expression arg_expr]))
          else None)"

definition create_return_type_name ::
  "services \<Rightarrow> definition_kind \<Rightarrow> mdl_definition \<Rightarrow> type_name" where
  "create_return_type_name mdl kind prototype =
     (case kind of
        Material_kind \<Rightarrow> \<lparr>tn_of = Named_type ''material'', tn_qualifier = FQ_NONE\<rparr>
      | Function_kind \<Rightarrow> create_core_type_name mdl (d_mdl_return_type prototype))"

text \<open>
  \<^verbatim>\<open>add_variant\<close>: the status, the module and the importer after the call. The
  declaration is added by the last statement before \<^verbatim>\<open>return 0\<close>.
\<close>

definition add_variant ::
  "transaction \<Rightarrow> services \<Rightarrow> definition_kind \<Rightarrow> symbol_importer \<Rightarrow> ast_module
     \<Rightarrow> mdl_definition \<Rightarrow> string \<Rightarrow> expression_list option \<Rightarrow> annotation_block option
     \<Rightarrow> (status \<times> ast_module \<times> symbol_importer) option" where
  "add_variant db mdl kind symbol_importer module prototype0 variant_name defaults
       annotation_block =
     (case dereference_prototype db kind prototype0 of
        None \<Rightarrow> None
      | Some prototype \<Rightarrow>
          (let checked =
                 (case defaults of
                    None \<Rightarrow> 0
                  | Some ds \<Rightarrow> check_defaults mdl (d_parameter_types prototype) ds)
           in if checked \<noteq> 0 then Some (checked, module, symbol_importer)
              else
                (case (case defaults of
                         None \<Rightarrow> Some (0, [], symbol_importer)
                       | Some ds \<Rightarrow>
                           variant_arguments mdl ds (d_mdl_parameter_types prototype) 0
                             (map fst (d_parameter_types prototype)) [] symbol_importer) of
                   None \<Rightarrow> None
                 | Some (converted, arguments, importer1) \<Rightarrow>
                     if converted \<noteq> 0 then Some (converted, module, importer1)
                     else
                       (case create_annotations db mdl annotation_block importer1 of
                          None \<Rightarrow> None
                        | Some (result, mdl_annotation_block, importer2) \<Rightarrow>
                            if result \<noteq> 0 then Some (result, module, importer2)
                            else
                              (let variant_call =
                                     Call_expression (Reference (d_mdl_name prototype))
                                       arguments;
                                   variant_declaration =
                                     \<lparr>df_return_type =
                                        create_return_type_name mdl kind prototype,
                                      df_name = variant_name,
                                      df_is_clone = True,
                                      df_body = variant_call,
                                      df_annotations = mdl_annotation_block,
                                      df_is_exported = True,
                                      df_parameters = []\<rparr>
                               in Some (0, add_declaration variant_declaration module,
                                        importer2 @ [Imports_of_expression variant_call]))))))"

subsection \<open>Materials with promoted parameters\<close>

text \<open>The interface \<^verbatim>\<open>ICall\<close> and its two implementations.\<close>

record icall =
  get_abs_name :: string
  get_arguments :: "expression_list option"
  get_parameter_types :: type_list

definition Function_call :: "mdl_function_call \<Rightarrow> icall" where
  "Function_call call =
     \<lparr>get_abs_name = ''material'', get_arguments = Some (fc_arguments call),
      get_parameter_types = fc_parameter_types call\<rparr>"

definition Material_call :: "mdl_material_instance \<Rightarrow> icall" where
  "Material_call inst =
     \<lparr>get_abs_name = mi_material_definition inst, get_arguments = Some (mi_arguments inst),
      get_parameter_types = mi_parameter_types inst\<rparr>"

record parameter_data =
  pd_name :: string
  pd_path :: string
  pd_annotations :: "annotation_block option"
  pd_enforce_uniform :: bool

record material_data =
  md_material_name :: string
  md_parameters :: "parameter_data list"
  md_annotations :: "annotation_block option"

record new_parameter =
  np_sym :: string
  np_init :: expression
  np_annos :: "annotation_block option"
  np_is_uniform :: bool

text \<open>The first loop: resolve each path and ask the uniform analysis.\<close>

fun collect_new_parameters ::
  "transaction \<Rightarrow> expression_list \<Rightarrow> type_list \<Rightarrow> parameter_data list
     \<Rightarrow> (status + new_parameter list) option" where
  "collect_new_parameters db args param_types [] = Some (Inr [])"
| "collect_new_parameters db args param_types (pd # rest) =
     (case find_path db (pd_path pd) args of
        None \<Rightarrow> Some (Inl (-13))
      | Some expr \<Rightarrow>
          (case can_enforce_uniform db args param_types (pd_path pd) expr of
             None \<Rightarrow> None
           | Some (ok, must_be_uniform) \<Rightarrow>
               if \<not> ok then Some (Inl (-15))
               else
                 (case collect_new_parameters db args param_types rest of
                    Some (Inr new_params) \<Rightarrow>
                      Some (Inr (\<lparr>np_sym = pd_name pd, np_init = expr,
                                  np_annos = pd_annotations pd,
                                  np_is_uniform = must_be_uniform \<or> pd_enforce_uniform pd\<rparr>
                                 # new_params))
                  | r \<Rightarrow> r)))"

text \<open>The temporaries of the let and the named arguments that refer to them.\<close>

fun let_declarations ::
  "services \<Rightarrow> (string \<times> expression) list \<Rightarrow> nat \<Rightarrow> expression_list
     \<Rightarrow> (type_name \<times> nat \<times> ast_expression option) list" where
  "let_declarations mdl declared i [] = []"
| "let_declarations mdl declared i ((pname, arg) # args) =
     (create_type_name mdl (get_type arg), i, transform_expr mdl declared arg)
       # let_declarations mdl declared (Suc i) args"

fun let_arguments :: "nat \<Rightarrow> expression_list \<Rightarrow> (string \<times> ast_expression) list" where
  "let_arguments i [] = []"
| "let_arguments i ((pname, arg) # args) =
     (pname, Temporary_reference i) # let_arguments (Suc i) args"

text \<open>
  The type name of a new parameter in the second loop: the qualifier is set when the
  parameter is uniform, and set again when the type is a resource type. The loop runs
  after \<^verbatim>\<open>remove_parameters\<close>, so the initialisers are converted with no parameter
  declared.
\<close>

definition promoted_type_name :: "services \<Rightarrow> new_parameter \<Rightarrow> type_name" where
  "promoted_type_name mdl pd =
     (let ptype = get_type (np_init pd);
          tn = create_type_name mdl ptype;
          tn1 = (if np_is_uniform pd then set_qualifier FQ_UNIFORM tn else tn);
          kind = get_kind_of_type ptype
      in if kind = TK_TEXTURE \<or> kind = TK_BSDF_MEASUREMENT \<or> kind = TK_LIGHT_PROFILE
         then set_qualifier FQ_UNIFORM tn1 else tn1)"

fun add_parameters ::
  "transaction \<Rightarrow> services \<Rightarrow> new_parameter list \<Rightarrow> declaration_function \<Rightarrow> symbol_importer
     \<Rightarrow> (status \<times> declaration_function \<times> symbol_importer) option" where
  "add_parameters db mdl [] fdecl importer = Some (0, fdecl, importer)"
| "add_parameters db mdl (pd # rest) fdecl importer =
     (case create_annotations db mdl (np_annos pd) importer of
        None \<Rightarrow> None
      | Some (result, p_annos, importer1) \<Rightarrow>
          if result \<noteq> 0 then Some (result, fdecl, importer1)
          else
            add_parameters db mdl rest
              (fdecl\<lparr>df_parameters := df_parameters fdecl @
                  [\<lparr>ap_type_name = promoted_type_name mdl pd, ap_name = np_sym pd,
                    ap_init = transform_expr mdl [] (np_init pd), ap_annotations = p_annos\<rparr>]\<rparr>)
              (case transform_expr mdl [] (np_init pd) of
                 None \<Rightarrow> importer1
               | Some init \<Rightarrow> importer1 @ [Imports_of_expression init]))"

text \<open>
  \<^verbatim>\<open>add_material\<close>. Without an argument list and without parameters the function runs
  into \<^verbatim>\<open>args->get_size()\<close> on the null handle unless the annotations fail first.
\<close>

definition add_material ::
  "transaction \<Rightarrow> services \<Rightarrow> symbol_importer \<Rightarrow> ast_module \<Rightarrow> icall \<Rightarrow> material_data
     \<Rightarrow> (status \<times> ast_module \<times> symbol_importer) option" where
  "add_material db mdl symbol_importer module callee md =
     (case get_arguments callee of
        None \<Rightarrow>
          if md_parameters md \<noteq> [] then Some (-6, module, symbol_importer)
          else
            (case create_annotations db mdl (md_annotations md) symbol_importer of
               None \<Rightarrow> None
             | Some (result, block, importer1) \<Rightarrow>
                 if result \<noteq> 0 then Some (result, module, importer1) else None)
      | Some args \<Rightarrow>
          (case collect_new_parameters db args (get_parameter_types callee)
                  (md_parameters md) of
             None \<Rightarrow> None
           | Some (Inl result) \<Rightarrow> Some (result, module, symbol_importer)
           | Some (Inr new_params) \<Rightarrow>
               (case create_annotations db mdl (md_annotations md) symbol_importer of
                  None \<Rightarrow> None
                | Some (result, mdl_annotation_block, importer1) \<Rightarrow>
                    if result \<noteq> 0 then Some (result, module, importer1)
                    else
                      (let call = Call_expression (Reference (get_abs_name callee))
                                    (let_arguments 0 args);
                           res = (if length args > 0
                                  then Let_expression
                                         (let_declarations mdl
                                            (map (\<lambda>np. (np_sym np, np_init np)) new_params)
                                            0 args)
                                         call
                                  else call);
                           fdecl =
                             \<lparr>df_return_type =
                                \<lparr>tn_of = Named_type ''material'', tn_qualifier = FQ_NONE\<rparr>,
                              df_name = md_material_name md,
                              df_is_clone = False,
                              df_body = res,
                              df_annotations = mdl_annotation_block,
                              df_is_exported = True,
                              df_parameters = []\<rparr>
                       in case add_parameters db mdl new_params fdecl
                                 (importer1 @ [Imports_of_expression res]) of
                            None \<Rightarrow> None
                          | Some (result, fdecl', importer2) \<Rightarrow>
                              if result \<noteq> 0 then Some (result, module, importer2)
                              else Some (0, add_declaration fdecl' module,
                                         importer2 @ [Used_user_types])))))"

section \<open>The module driver\<close>

subsection \<open>Module names\<close>

text \<open>
  \<^verbatim>\<open>is_valid_module_name\<close> skips a leading \<^verbatim>\<open>::\<close>, cuts the name at each \<^verbatim>\<open>::\<close>
  (\<^verbatim>\<open>strstr\<close> finds the leftmost one) and asks the compiler about each identifier.
\<close>

fun split_scopes :: "string \<Rightarrow> string list" where
  "split_scopes (c # d # cs) =
     (if c = CHR '':'' \<and> d = CHR '':'' then [] # split_scopes cs
      else (case split_scopes (d # cs) of
              [] \<Rightarrow> [[c]]
            | ident # idents \<Rightarrow> (c # ident) # idents))"
| "split_scopes [c] = [[c]]"
| "split_scopes [] = [[]]"

definition is_valid_module_name :: "services \<Rightarrow> string \<Rightarrow> bool" where
  "is_valid_module_name mdl name =
     list_all (is_valid_mdl_identifier mdl)
       (split_scopes (if take 2 name = ''::'' then drop 2 name else name))"

subsection \<open>Registration\<close>

text \<open>
  The two loops that compute the database names of the functions and of the materials
  stop at the first name that has a tag.
\<close>

definition name_in_use :: "transaction \<Rightarrow> (string \<times> mdl_definition) list \<Rightarrow> bool" where
  "name_in_use db entries =
     list_ex (\<lambda>(name, d). name_to_tag db (add_mdl_db_prefix name) \<noteq> 0) entries"

text \<open>
  The two loops that create the database elements: every definition gets a reserved
  tag; an exported one is stored under its name, another one is stored for reference
  counting.
\<close>

fun store_function_definitions ::
  "transaction \<Rightarrow> tag \<Rightarrow> (string \<times> mdl_definition) list \<Rightarrow> transaction" where
  "store_function_definitions db db_module_tag [] = db"
| "store_function_definitions db db_module_tag ((name, d) # rest) =
     (case reserve_tag db of
        (function_tag, db1) \<Rightarrow>
          store_function_definitions
            (if d_is_exported d
             then store_at db1 function_tag
                    (Mdl_function_definition (d\<lparr>d_module := db_module_tag\<rparr>))
                    (add_mdl_db_prefix name)
             else store_for_reference_counting db1 function_tag
                    (Mdl_function_definition (d\<lparr>d_module := db_module_tag\<rparr>))
                    (add_mdl_db_prefix name))
            db_module_tag rest)"

fun store_material_definitions ::
  "transaction \<Rightarrow> tag \<Rightarrow> (string \<times> mdl_definition) list \<Rightarrow> transaction" where
  "store_material_definitions db db_module_tag [] = db"
| "store_material_definitions db db_module_tag ((name, d) # rest) =
     (case reserve_tag db of
        (material_tag, db1) \<Rightarrow>
          store_material_definitions
            (if d_is_exported d
             then store_at db1 material_tag
                    (Mdl_material_definition (d\<lparr>d_module := db_module_tag\<rparr>))
                    (add_mdl_db_prefix name)
             else store_for_reference_counting db1 material_tag
                    (Mdl_material_definition (d\<lparr>d_module := db_module_tag\<rparr>))
                    (add_mdl_db_prefix name))
            db_module_tag rest)"

text \<open>
  \<^verbatim>\<open>create_module_internal\<close> returns the status, the transaction after the call and the
  tag written to \<^verbatim>\<open>module_tag\<close> (0 when it is not written). \<open>resolve_imports\<close> is the
  loop over the imports, which calls the function itself for an import that has no tag;
  it yields the tags of the imports or the status that ends the outer call. Resource
  literals and messages are left out: they belong to the resource resolver and to
  logging.
\<close>

fun create_module_internal :: "transaction \<Rightarrow> imodule \<Rightarrow> status \<times> transaction \<times> tag"
  and resolve_imports :: "transaction \<Rightarrow> imodule list \<Rightarrow> (status + tag list) \<times> transaction"
where
  "create_module_internal db (IModule info valid restored code imports) =
     (if \<not> valid then (-2, db, 0)
      else if name_to_tag db (add_mdl_db_prefix (mod_name info)) \<noteq> 0 then
        (if get_class_id db (name_to_tag db (add_mdl_db_prefix (mod_name info)))
              \<noteq> ID_MDL_MODULE
         then (-3, db, 0)
         else (1, db, name_to_tag db (add_mdl_db_prefix (mod_name info))))
      else if \<not> restored then (-4, db, 0)
      else
        (case code of
           None \<Rightarrow> (-2, db, 0)
         | Some code_dag \<Rightarrow>
             if gc_error_message_count code_dag > 0 then (-2, db, 0)
             else
               (case resolve_imports db imports of
                  (Inl result, db1) \<Rightarrow> (result, db1, 0)
                | (Inr import_tags, db1) \<Rightarrow>
                    if name_in_use db1 (gc_functions code_dag) then (-3, db1, 0)
                    else if name_in_use db1 (gc_materials code_dag) then (-3, db1, 0)
                    else
                      (case store db1
                              (Mdl_module
                                 \<lparr>m_module = info, m_imports = import_tags,
                                  m_functions =
                                    map (\<lambda>(n, d). add_mdl_db_prefix n) (gc_functions code_dag),
                                  m_materials =
                                    map (\<lambda>(n, d). add_mdl_db_prefix n) (gc_materials code_dag)\<rparr>)
                              (add_mdl_db_prefix (mod_name info)) of
                         (db_module_tag, db2) \<Rightarrow>
                           (0,
                            store_material_definitions
                              (store_function_definitions db2 db_module_tag
                                 (gc_functions code_dag))
                              db_module_tag (gc_materials code_dag),
                            db_module_tag)))))"
| "resolve_imports db [] = (Inr [], db)"
| "resolve_imports db (import # rest) =
     (if name_to_tag db (add_mdl_db_prefix (get_name import)) \<noteq> 0 then
        (if get_class_id db (name_to_tag db (add_mdl_db_prefix (get_name import)))
              \<noteq> ID_MDL_MODULE
         then (Inl (-3), db)
         else
           (case resolve_imports db rest of
              (Inr tags, db') \<Rightarrow>
                (Inr (name_to_tag db (add_mdl_db_prefix (get_name import)) # tags), db')
            | r \<Rightarrow> r))
      else
        (case create_module_internal db import of
           (result, db1, import_tag) \<Rightarrow>
             if result < 0 then (Inl (-4), db1)
             else
               (case resolve_imports db1 rest of
                  (Inr tags, db2) \<Rightarrow> (Inr (import_tag # tags), db2)
                | r \<Rightarrow> r)))"

subsection \<open>The three ways to create a module\<close>

text \<open>The check whether the module exists already, the same in the three functions:
  the status that ends the call, if the name has a tag.\<close>

definition existing_module :: "transaction \<Rightarrow> string \<Rightarrow> status option" where
  "existing_module db module_name =
     (let db_module_tag = name_to_tag db (add_mdl_db_prefix module_name)
      in if db_module_tag \<noteq> 0 then
           (if get_class_id db db_module_tag \<noteq> ID_MDL_MODULE then Some (-3) else Some 1)
         else None)"

definition create_module :: "transaction \<Rightarrow> services \<Rightarrow> string \<Rightarrow> status \<times> transaction" where
  "create_module db mdl module_name =
     (if \<not> is_valid_module_name mdl module_name then (-1, db)
      else
        (case existing_module db module_name of
           Some result \<Rightarrow> (result, db)
         | None \<Rightarrow>
             (case load_module mdl db module_name of
                None \<Rightarrow> (-2, db)
              | Some module \<Rightarrow>
                  (case create_module_internal db module of
                     (result, db', module_tag) \<Rightarrow> (result, db')))))"

definition create_module_from_stream ::
  "transaction \<Rightarrow> services \<Rightarrow> string \<Rightarrow> string \<Rightarrow> status \<times> transaction" where
  "create_module_from_stream db mdl module_name module_source =
     (if \<not> is_valid_module_name mdl module_name \<and> module_name \<noteq> ''::<neuray>''
      then (-1, db)
      else
        (case existing_module db module_name of
           Some result \<Rightarrow> (result, db)
         | None \<Rightarrow>
             (case load_module_from_stream mdl db module_name module_source of
                None \<Rightarrow> (-2, db)
              | Some module \<Rightarrow>
                  (case create_module_internal db module of
                     (result, db', module_tag) \<Rightarrow> (result, db')))))"

subsection \<open>Modules of variants\<close>

record variant_data =
  vd_prototype_tag :: tag
  vd_variant_name :: string
  vd_defaults :: "expression_list option"
  vd_annotations :: "annotation_block option"

text \<open>
  The loop that detects the language version: \<open>Inl (-5)\<close> when a prototype is neither
  a material nor a function definition, else the final \<^verbatim>\<open>max_major\<close> and
  \<^verbatim>\<open>max_minor\<close>. The module of the prototype is accessed without a check of its class.
\<close>

fun detect_version ::
  "transaction \<Rightarrow> variant_data list \<Rightarrow> int \<Rightarrow> int \<Rightarrow> (status + int \<times> int) option" where
  "detect_version db [] max_major max_minor = Some (Inr (max_major, max_minor))"
| "detect_version db (pd # rest) max_major max_minor =
     (case (case access db (vd_prototype_tag pd) of
              Some (Mdl_material_definition prototype) \<Rightarrow> Some (d_module prototype)
            | Some (Mdl_function_definition prototype) \<Rightarrow> Some (d_module prototype)
            | _ \<Rightarrow> None) of
        None \<Rightarrow> Some (Inl (-5))
      | Some module_tag \<Rightarrow>
          (case access db module_tag of
             Some (Mdl_module module) \<Rightarrow>
               (case mod_version (m_module module) of
                  (major, minor) \<Rightarrow>
                    if major > max_major then detect_version db rest major minor
                    else if major = max_major \<and> minor > max_minor
                    then detect_version db rest max_major minor
                    else detect_version db rest max_major max_minor)
           | _ \<Rightarrow> None))"

text \<open>The two nested \<^verbatim>\<open>switch\<close> statements.\<close>

definition version_of :: "int \<Rightarrow> int \<Rightarrow> mdl_version" where
  "version_of max_major max_minor =
     (if max_major = 1 then
        (if max_minor = 0 then MDL_VERSION_1_0
         else if max_minor = 1 then MDL_VERSION_1_1
         else if max_minor = 2 then MDL_VERSION_1_2
         else if max_minor = 3 then MDL_VERSION_1_3
         else if max_minor = 4 then MDL_VERSION_1_4
         else MDL_LATEST_VERSION)
      else MDL_LATEST_VERSION)"

text \<open>The version that the new module is created with, or the status of the first loop.\<close>

definition detected_mdl_version ::
  "transaction \<Rightarrow> variant_data list \<Rightarrow> (status + mdl_version) option" where
  "detected_mdl_version db variant_data =
     (case detect_version db variant_data 1 0 of
        None \<Rightarrow> None
      | Some (Inl result) \<Rightarrow> Some (Inl result)
      | Some (Inr (max_major, max_minor)) \<Rightarrow> Some (Inr (version_of max_major max_minor)))"

text \<open>The loop that adds the variants; it stops at the first status that is not 0.\<close>

fun add_variants ::
  "transaction \<Rightarrow> services \<Rightarrow> symbol_importer \<Rightarrow> ast_module \<Rightarrow> variant_data list
     \<Rightarrow> (status \<times> ast_module \<times> symbol_importer) option" where
  "add_variants db mdl symbol_importer module [] = Some (0, module, symbol_importer)"
| "add_variants db mdl symbol_importer module (pd # rest) =
     (case access db (vd_prototype_tag pd) of
        Some (Mdl_material_definition prototype) \<Rightarrow>
          (case add_variant db mdl Material_kind symbol_importer module prototype
                  (vd_variant_name pd) (vd_defaults pd) (vd_annotations pd) of
             None \<Rightarrow> None
           | Some (result, module', importer') \<Rightarrow>
               if result \<noteq> 0 then Some (result, module', importer')
               else add_variants db mdl importer' module' rest)
      | Some (Mdl_function_definition prototype) \<Rightarrow>
          (case add_variant db mdl Function_kind symbol_importer module prototype
                  (vd_variant_name pd) (vd_defaults pd) (vd_annotations pd) of
             None \<Rightarrow> None
           | Some (result, module', importer') \<Rightarrow>
               if result \<noteq> 0 then Some (result, module', importer')
               else add_variants db mdl importer' module' rest)
      | _ \<Rightarrow> Some (-5, module, symbol_importer))"

text \<open>
  The part of the variant entry point between the check of the name and the analysis:
  the version is detected, the module is created with it, the variants are added and
  the collected imports are added to the module. \<open>Inl\<close> is the status that ends the
  call; \<open>Inr\<close> is the module that is handed to the analysis.
\<close>

definition variants_module ::
  "transaction \<Rightarrow> services \<Rightarrow> string \<Rightarrow> variant_data list
     \<Rightarrow> (status + ast_module) option" where
  "variants_module db mdl module_name variant_data =
     (case detected_mdl_version db variant_data of
        None \<Rightarrow> None
      | Some (Inl result) \<Rightarrow> Some (Inl result)
      | Some (Inr version) \<Rightarrow>
          (case add_variants db mdl []
                  \<lparr>am_name = module_name, am_version = version,
                   am_declarations = [], am_imports = []\<rparr> variant_data of
             None \<Rightarrow> None
           | Some (result, module, symbol_importer) \<Rightarrow>
               if result \<noteq> 0 then Some (Inl result)
               else Some (Inr (module\<lparr>am_imports := symbol_importer\<rparr>))))"

definition create_module_from_variants ::
  "transaction \<Rightarrow> services \<Rightarrow> string \<Rightarrow> variant_data list
     \<Rightarrow> (status \<times> transaction) option" where
  "create_module_from_variants db mdl module_name variant_data =
     (if \<not> is_valid_module_name mdl module_name then Some (-1, db)
      else
        (case existing_module db module_name of
           Some result \<Rightarrow> Some (result, db)
         | None \<Rightarrow>
             (case variants_module db mdl module_name variant_data of
                None \<Rightarrow> None
              | Some (Inl result) \<Rightarrow> Some (result, db)
              | Some (Inr module) \<Rightarrow>
                  (let analyzed = analyze mdl db module
                   in if \<not> is_valid analyzed then Some (-8, db)
                      else
                        (case create_module_internal db analyzed of
                           (result, db', module_tag) \<Rightarrow> Some (result, db'))))))"

section \<open>Example scenes\<close>

text \<open>
  A small database for the concrete cases below: a module with the uniform function
  \<open>F(uniform float x)\<close>, the varying functions \<open>V()\<close> and \<open>W(float x)\<close>, the material
  \<open>M\<close> and the ternary operator, and stored calls and instances of them.
\<close>

definition plain_float :: itype where
  "plain_float = \<lparr>get_kind_of_type = TK_FLOAT, get_all_type_modifiers = {}\<rparr>"

definition uniform_float :: itype where
  "uniform_float = \<lparr>get_kind_of_type = TK_FLOAT, get_all_type_modifiers = {MK_UNIFORM}\<rparr>"

definition plain_bool :: itype where
  "plain_bool = \<lparr>get_kind_of_type = TK_BOOL, get_all_type_modifiers = {}\<rparr>"

definition material_type :: itype where
  "material_type = \<lparr>get_kind_of_type = TK_STRUCT, get_all_type_modifiers = {}\<rparr>"

definition texture_type :: itype where
  "texture_type = \<lparr>get_kind_of_type = TK_TEXTURE, get_all_type_modifiers = {}\<rparr>"

definition example_module :: mdl_module_element where
  "example_module =
     \<lparr>m_module =
        \<lparr>mod_name = ''::example'', mod_filename = ''/example.mdl'', mod_version = (1, 3),
         mod_signatures =
           [(''::example::F(float)'', \<lparr>dp_is_varying = False, def_parameters = []\<rparr>),
            (''::example::V()'', \<lparr>dp_is_varying = True, def_parameters = []\<rparr>),
            (''::example::W(float)'', \<lparr>dp_is_varying = True, def_parameters = []\<rparr>)],
         mod_annotations = []\<rparr>,
      m_imports = [],
      m_functions = [''mdl::example::F(float)'', ''mdl::example::V()'', ''mdl::example::W(float)''],
      m_materials = [''mdl::example::M(float)'']\<rparr>"

definition function_F :: mdl_definition where
  "function_F =
     \<lparr>d_module = 1, d_prototype = 0, d_mdl_name = ''::example::F(float)'',
      d_semantic = DS_UNKNOWN, d_is_exported = True, d_parameter_types = [(''x'', uniform_float)],
      d_mdl_parameter_types = [\<lparr>get_type_modifiers = {MK_UNIFORM}\<rparr>], d_mdl_return_type = \<lparr>get_type_modifiers = {}\<rparr>, d_defaults = []\<rparr>"

definition function_V :: mdl_definition where
  "function_V =
     \<lparr>d_module = 1, d_prototype = 0, d_mdl_name = ''::example::V()'',
      d_semantic = DS_UNKNOWN, d_is_exported = True, d_parameter_types = [],
      d_mdl_parameter_types = [], d_mdl_return_type = \<lparr>get_type_modifiers = {}\<rparr>, d_defaults = []\<rparr>"

definition function_W :: mdl_definition where
  "function_W =
     \<lparr>d_module = 1, d_prototype = 0, d_mdl_name = ''::example::W(float)'',
      d_semantic = DS_UNKNOWN, d_is_exported = True, d_parameter_types = [(''x'', plain_float)],
      d_mdl_parameter_types = [\<lparr>get_type_modifiers = {}\<rparr>], d_mdl_return_type = \<lparr>get_type_modifiers = {}\<rparr>, d_defaults = []\<rparr>"

definition material_M :: mdl_definition where
  "material_M =
     \<lparr>d_module = 1, d_prototype = 0, d_mdl_name = ''::example::M(float)'',
      d_semantic = DS_UNKNOWN, d_is_exported = True, d_parameter_types = [(''tint'', plain_float)],
      d_mdl_parameter_types = [\<lparr>get_type_modifiers = {}\<rparr>], d_mdl_return_type = \<lparr>get_type_modifiers = {}\<rparr>, d_defaults = []\<rparr>"

definition operator_ternary :: mdl_definition where
  "operator_ternary =
     \<lparr>d_module = 1, d_prototype = 0, d_mdl_name = ''operator?(bool,<0>,<0>)'',
      d_semantic = operator_to_semantic OK_TERNARY, d_is_exported = True,
      d_parameter_types =
        [(''cond'', plain_bool), (''true_exp'', plain_float), (''false_exp'', plain_float)],
      d_mdl_parameter_types =
        [\<lparr>get_type_modifiers = {}\<rparr>, \<lparr>get_type_modifiers = {}\<rparr>,
         \<lparr>get_type_modifiers = {}\<rparr>],
      d_mdl_return_type = \<lparr>get_type_modifiers = {}\<rparr>, d_defaults = []\<rparr>"

definition older_module :: mdl_module_element where
  "older_module =
     \<lparr>m_module =
        \<lparr>mod_name = ''::older'', mod_filename = ''/older.mdl'', mod_version = (1, 1),
         mod_signatures = [(''::older::H()'', \<lparr>dp_is_varying = False, def_parameters = []\<rparr>)],
         mod_annotations = []\<rparr>,
      m_imports = [], m_functions = [''mdl::older::H()''], m_materials = []\<rparr>"

definition function_H :: mdl_definition where
  "function_H =
     \<lparr>d_module = 20, d_prototype = 0, d_mdl_name = ''::older::H()'',
      d_semantic = DS_UNKNOWN, d_is_exported = True, d_parameter_types = [],
      d_mdl_parameter_types = [], d_mdl_return_type = \<lparr>get_type_modifiers = {}\<rparr>,
      d_defaults = []\<rparr>"

text \<open>The module \<open>::<neuray>\<close>, which only the stream entry point accepts by name.\<close>

definition neuray_module :: mdl_module_element where
  "neuray_module =
     \<lparr>m_module =
        \<lparr>mod_name = ''::<neuray>'', mod_filename = [], mod_version = (1, 4),
         mod_signatures = [], mod_annotations = []\<rparr>,
      m_imports = [], m_functions = [], m_materials = []\<rparr>"

text \<open>A module that declares the version 0.9, below the first version of the language.\<close>

definition draft_module :: mdl_module_element where
  "draft_module =
     \<lparr>m_module =
        \<lparr>mod_name = ''::draft'', mod_filename = ''/draft.mdl'', mod_version = (0, 9),
         mod_signatures = [(''::draft::D()'', \<lparr>dp_is_varying = False, def_parameters = []\<rparr>)],
         mod_annotations = []\<rparr>,
      m_imports = [], m_functions = [''mdl::draft::D()''], m_materials = []\<rparr>"

definition function_D :: mdl_definition where
  "function_D =
     \<lparr>d_module = 22, d_prototype = 0, d_mdl_name = ''::draft::D()'',
      d_semantic = DS_UNKNOWN, d_is_exported = True, d_parameter_types = [],
      d_mdl_parameter_types = [], d_mdl_return_type = \<lparr>get_type_modifiers = {}\<rparr>,
      d_defaults = []\<rparr>"

definition ternary_arguments :: expression_list where
  "ternary_arguments =
     [(''cond'', Constant 107 plain_bool), (''true_exp'', Constant 108 plain_float),
      (''false_exp'', Constant 109 plain_float)]"

definition example_db :: transaction where
  "example_db =
     \<lparr>db_names =
        [(''mdl::example'', 1), (''mdl::example::F(float)'', 2), (''mdl::example::V()'', 3),
         (''mdl::example::M(float)'', 4), (''mdl::example::W(float)'', 10),
         (''mdl::older'', 20), (''mdl::older::H()'', 21),
         (''mdl::draft'', 22), (''mdl::draft::D()'', 23),
         (''mdl::image'', 30), (''mdl::dir/image'', 30), (''mdl::half::g()'', 30),
         (''mdl::<neuray>'', 31)],
      db_elements =
        [(1, Mdl_module example_module),
         (2, Mdl_function_definition function_F),
         (3, Mdl_function_definition function_V),
         (4, Mdl_material_definition material_M),
         (5, Mdl_function_call
               \<lparr>fc_function_definition = 2, fc_arguments = [(''x'', Constant 101 plain_float)],
                fc_parameter_types = [(''x'', uniform_float)]\<rparr>),
         (6, Mdl_material_instance
               \<lparr>mi_material_definition = ''mdl::example::M(float)'',
                mi_arguments = [(''tint'', Constant 102 plain_float)],
                mi_parameter_types = [(''tint'', plain_float)]\<rparr>),
         (7, Mdl_function_call
               \<lparr>fc_function_definition = 3, fc_arguments = [], fc_parameter_types = []\<rparr>),
         (8, Mdl_function_call
               \<lparr>fc_function_definition = 2, fc_arguments = [(''x'', Call 103 material_type 6)],
                fc_parameter_types = [(''x'', uniform_float)]\<rparr>),
         (10, Mdl_function_definition function_W),
         (11, Mdl_function_call
               \<lparr>fc_function_definition = 10, fc_arguments = [(''x'', Constant 104 plain_float)],
                fc_parameter_types = [(''x'', plain_float)]\<rparr>),
         (12, Mdl_function_definition operator_ternary),
         (13, Mdl_function_call
               \<lparr>fc_function_definition = 12, fc_arguments = ternary_arguments,
                fc_parameter_types = d_parameter_types operator_ternary\<rparr>),
         (14, Mdl_function_call
               \<lparr>fc_function_definition = 2, fc_arguments = [(''x'', Call 111 plain_float 7)],
                fc_parameter_types = [(''x'', uniform_float)]\<rparr>),
         (15, Mdl_material_instance
               \<lparr>mi_material_definition = ''mdl::example::M(float)'',
                mi_arguments =
                  [(''tex'', Constant 150 texture_type), (''tint'', Constant 151 plain_float)],
                mi_parameter_types = [(''tex'', texture_type), (''tint'', plain_float)]\<rparr>),
         (20, Mdl_module older_module),
         (21, Mdl_function_definition function_H),
         (22, Mdl_module draft_module),
         (23, Mdl_function_definition function_D),
         (30, Other_element),
         (31, Mdl_module neuray_module)],
      db_next_tag = 32\<rparr>"


text \<open>Argument lists and parameter types of the callees of the concrete cases.\<close>

definition scenario_args :: expression_list where
  "scenario_args = [(''g'', Call 120 uniform_float 5)]"

definition scenario_types :: type_list where
  "scenario_types = [(''g'', uniform_float)]"

definition conflict_args :: expression_list where
  "conflict_args = [(''g'', Call 110 uniform_float 14)]"

definition barrier_args :: expression_list where
  "barrier_args = [(''a'', Call 121 plain_float 8)]"

definition plain_types :: type_list where
  "plain_types = [(''a'', plain_float)]"

definition nested_constant_args :: expression_list where
  "nested_constant_args = [(''a'', Call 105 plain_float 11)]"

definition uniform_types :: type_list where
  "uniform_types = [(''a'', uniform_float)]"

definition direct_material_args :: expression_list where
  "direct_material_args = [(''a'', Direct_call 130 material_type 4 [])]"

definition direct_ternary_args :: expression_list where
  "direct_ternary_args = [(''a'', Direct_call 106 plain_float 12 ternary_arguments)]"

definition stored_ternary_args :: expression_list where
  "stored_ternary_args = [(''a'', Call 106 plain_float 13)]"

text \<open>Two variants, of \<open>H\<close> (module version 1.1) and of \<open>F\<close> (module version 1.3).\<close>

definition example_variants :: "variant_data list" where
  "example_variants =
     [\<lparr>vd_prototype_tag = 21, vd_variant_name = ''H2'', vd_defaults = None,
       vd_annotations = None\<rparr>,
      \<lparr>vd_prototype_tag = 2, vd_variant_name = ''F2'',
       vd_defaults = Some [(''x'', Constant 140 uniform_float)], vd_annotations = None\<rparr>]"


text \<open>
  Compiler services for the concrete cases: identifiers are non-empty words of letters,
  digits and underscores, types match when their kinds agree, every conversion
  succeeds (an expression that is a declared parameter becomes a reference to it), a
  fresh type name has no qualifier, the only module that can be loaded by name is
  \<open>::fresh\<close> with one exported function and one local material, and the ones that
  can be loaded from a stream are \<open>::streamed\<close> and \<open>::<neuray>\<close>.
\<close>

definition is_identifier_char :: "char \<Rightarrow> bool" where
  "is_identifier_char c =
     (c \<in> set ''abcdefghijklmnopqrstuvwxyzABCDEFGHIJKLMNOPQRSTUVWXYZ0123456789_'')"

definition fresh_module :: imodule where
  "fresh_module =
     IModule
       \<lparr>mod_name = ''::fresh'', mod_filename = ''/fresh.mdl'', mod_version = (1, 4),
        mod_signatures = [], mod_annotations = []\<rparr>
       True True
       (Some \<lparr>gc_error_message_count = 0,
              gc_functions = [(''::fresh::f()'', function_H)],
              gc_materials = [(''::fresh::m()'', function_H\<lparr>d_is_exported := False\<rparr>)]\<rparr>)
       []"

definition streamed_module :: imodule where
  "streamed_module =
     IModule
       \<lparr>mod_name = ''::streamed'', mod_filename = [], mod_version = (1, 4),
        mod_signatures = [], mod_annotations = []\<rparr>
       True True
       (Some \<lparr>gc_error_message_count = 0,
              gc_functions = [(''::streamed::s()'', function_H)], gc_materials = []\<rparr>)
       []"

text \<open>The module \<open>::<neuray>\<close> as it is loaded from a stream, and a database without it.\<close>

definition neuray_imodule :: imodule where
  "neuray_imodule =
     IModule (m_module neuray_module) True True
       (Some \<lparr>gc_error_message_count = 0, gc_functions = [], gc_materials = []\<rparr>) []"

definition blank_db :: transaction where
  "blank_db = \<lparr>db_names = [], db_elements = [], db_next_tag = 1\<rparr>"

definition example_services :: services where
  "example_services =
     \<lparr>is_valid_mdl_identifier = (\<lambda>s. s \<noteq> [] \<and> list_all is_identifier_char s),
      load_module = (\<lambda>db name. if name = ''::fresh'' then Some fresh_module else None),
      load_module_from_stream =
        (\<lambda>db name source.
           if name = ''::streamed'' then Some streamed_module
           else if name = ''::<neuray>'' then Some neuray_imodule else None),
      analyze =
        (\<lambda>db module.
           IModule
             \<lparr>mod_name = am_name module, mod_filename = [], mod_version = (1, 4),
              mod_signatures = [], mod_annotations = []\<rparr>
             True True
             (Some \<lparr>gc_error_message_count = 0, gc_functions = [], gc_materials = []\<rparr>)
             []),
      create_type_name = (\<lambda>t. \<lparr>tn_of = Scene_type t, tn_qualifier = FQ_NONE\<rparr>),
      create_core_type_name = (\<lambda>t. \<lparr>tn_of = Core_type t, tn_qualifier = FQ_NONE\<rparr>),
      argument_type_matches_parameter_type =
        (\<lambda>actual expected. get_kind_of_type actual = get_kind_of_type expected),
      int_expr_to_mdl_ast_expr = (\<lambda>t e. Some (Converted e)),
      transform_expr =
        (\<lambda>declared e.
           case find (\<lambda>(name, init). address init = address e) declared of
             None \<Rightarrow> Some (Converted e)
           | Some (name, init) \<Rightarrow> Some (Reference name)),
      int_value_to_mdl_value = (\<lambda>t e. True)\<rparr>"

definition empty_module :: ast_module where
  "empty_module =
     \<lparr>am_name = ''::new'', am_version = MDL_VERSION_1_3, am_declarations = [],
      am_imports = []\<rparr>"

text \<open>Promoting the texture argument and the tint of the stored material instance.\<close>

definition textured_instance :: mdl_material_instance where
  "textured_instance =
     \<lparr>mi_material_definition = ''mdl::example::M(float)'',
      mi_arguments =
        [(''tex'', Constant 150 texture_type), (''tint'', Constant 151 plain_float)],
      mi_parameter_types = [(''tex'', texture_type), (''tint'', plain_float)]\<rparr>"

definition promote_texture :: material_data where
  "promote_texture =
     \<lparr>md_material_name = ''textured'',
      md_parameters =
        [\<lparr>pd_name = ''new_tex'', pd_path = ''tex'', pd_annotations = None,
          pd_enforce_uniform = False\<rparr>,
         \<lparr>pd_name = ''new_tint'', pd_path = ''tint'', pd_annotations = None,
          pd_enforce_uniform = False\<rparr>],
      md_annotations = None\<rparr>"

text \<open>A variant of \<open>F\<close> whose default for \<open>x\<close> is a boolean.\<close>

definition mismatch_variants :: "variant_data list" where
  "mismatch_variants =
     [\<lparr>vd_prototype_tag = 2, vd_variant_name = ''F2'',
       vd_defaults = Some [(''x'', Constant 141 plain_bool)], vd_annotations = None\<rparr>]"

text \<open>
  Loaded modules: \<open>::example\<close> as the compiler loads it again, and \<open>::half\<close>, which
  imports the unregistered module \<open>::leaf\<close> and has a function whose database name is
  taken by another element.
\<close>

definition example_imodule :: imodule where
  "example_imodule =
     IModule (m_module example_module) True True
       (Some \<lparr>gc_error_message_count = 0,
              gc_functions =
                [(''::example::F(float)'', function_F), (''::example::V()'', function_V),
                 (''::example::W(float)'', function_W)],
              gc_materials = [(''::example::M(float)'', material_M)]\<rparr>)
       []"

definition leaf_module :: imodule where
  "leaf_module =
     IModule
       \<lparr>mod_name = ''::leaf'', mod_filename = ''/leaf.mdl'', mod_version = (1, 4),
        mod_signatures = [], mod_annotations = []\<rparr>
       True True
       (Some \<lparr>gc_error_message_count = 0,
              gc_functions = [(''::leaf::h()'', function_H)], gc_materials = []\<rparr>)
       []"

definition half_code :: generated_code where
  "half_code =
     \<lparr>gc_error_message_count = 0,
      gc_functions = [(''::half::f()'', function_H), (''::half::g()'', function_H)],
      gc_materials = []\<rparr>"

definition half_module :: imodule where
  "half_module =
     IModule
       \<lparr>mod_name = ''::half'', mod_filename = ''/half.mdl'', mod_version = (1, 4),
        mod_signatures = [], mod_annotations = []\<rparr>
       True True (Some half_code) [leaf_module]"

section \<open>Notions used to state the properties\<close>

text \<open>
  The declared version of the module of a prototype, as the first loop of the variant
  entry point reads it, and the lexicographic order on (major, minor) pairs.
\<close>

definition prototype_version :: "transaction \<Rightarrow> variant_data \<Rightarrow> (int \<times> int) option" where
  "prototype_version db pd =
     (case access db (vd_prototype_tag pd) of
        Some (Mdl_material_definition prototype) \<Rightarrow>
          (case access db (d_module prototype) of
             Some (Mdl_module module) \<Rightarrow> Some (mod_version (m_module module))
           | _ \<Rightarrow> None)
      | Some (Mdl_function_definition prototype) \<Rightarrow>
          (case access db (d_module prototype) of
             Some (Mdl_module module) \<Rightarrow> Some (mod_version (m_module module))
           | _ \<Rightarrow> None)
      | _ \<Rightarrow> None)"

definition version_less :: "int \<times> int \<Rightarrow> int \<times> int \<Rightarrow> bool" where
  "version_less v w = (fst v < fst w \<or> (fst v = fst w \<and> snd v < snd w))"

definition is_maximum_version :: "int \<times> int \<Rightarrow> (int \<times> int) list \<Rightarrow> bool" where
  "is_maximum_version v vs = (v \<in> set vs \<and> (\<forall>w \<in> set vs. \<not> version_less v w))"

text \<open>The resource types: textures, light profiles and BSDF measurements.\<close>

definition is_resource_type :: "itype \<Rightarrow> bool" where
  "is_resource_type t =
     (get_kind_of_type t = TK_TEXTURE \<or> get_kind_of_type t = TK_BSDF_MEASUREMENT
      \<or> get_kind_of_type t = TK_LIGHT_PROFILE)"

text \<open>
  The database names that the registration of a module can use: the name of the module,
  the names of its functions and materials, and the names of the modules it imports,
  directly or not. \<open>import_names\<close> are those of the imports alone.
\<close>

definition definition_names :: "generated_code option \<Rightarrow> string list" where
  "definition_names code =
     (case code of
        None \<Rightarrow> []
      | Some code_dag \<Rightarrow>
          map (\<lambda>(n, d). add_mdl_db_prefix n) (gc_functions code_dag @ gc_materials code_dag))"

fun module_names :: "imodule \<Rightarrow> string list" where
  "module_names (IModule info valid restored code imports) =
     add_mdl_db_prefix (mod_name info) # definition_names code
       @ concat (map module_names imports)"

definition import_names :: "imodule \<Rightarrow> string list" where
  "import_names m = concat (map module_names (get_imports m))"

text \<open>
  What a call adds to the name registrations: from \<open>db\<close> to \<open>db'\<close> only registrations
  of names in \<open>names\<close> are added, each with a valid tag, and none is removed.
\<close>

definition grows :: "transaction \<Rightarrow> transaction \<Rightarrow> string set \<Rightarrow> bool" where
  "grows db db' names =
     (\<exists>added. db_names db' = added @ db_names db
               \<and> fst ` set added \<subseteq> names \<and> 0 \<notin> snd ` set added)"

text \<open>
  What the entry points expect of the loader and of the analysis: the module they
  deliver carries the requested name, and that name is none of the database names of
  its functions and materials (those end with a signature).
\<close>

definition carries_name :: "string \<Rightarrow> imodule \<Rightarrow> bool" where
  "carries_name module_name m =
     (get_name m = module_name
      \<and> add_mdl_db_prefix module_name \<notin> set (definition_names (compile m)))"

section \<open>Properties of the uniform analysis\<close>

subsection \<open>The loop and the states it runs through\<close>

lemma loop_reaches_refl: "loop_reaches db p s s"
  by (simp add: loop_reaches_def)

lemma loop_reaches_step:
  "loop_reaches db p s s' \<Longrightarrow> loop_next db p s' = Some s'' \<Longrightarrow> loop_reaches db p s s''"
  unfolding loop_reaches_def by (rule rtranclp.rtrancl_into_rtrancl)

lemma loop_reaches_first:
  "loop_next db p s = Some s' \<Longrightarrow> loop_reaches db p s' s'' \<Longrightarrow> loop_reaches db p s s''"
  unfolding loop_reaches_def by (rule converse_rtranclp_into_rtranclp)

lemma uniform_loop_next:
  "loop_next db p (q, m) = Some (q', m') \<Longrightarrow> uniform_loop db p q m = uniform_loop db p q' m'"
  by (subst uniform_loop.simps)
     (auto simp: loop_next_def split: list.splits step.splits)

lemma uniform_loop_reaches:
  "loop_reaches db p s s' \<Longrightarrow>
     uniform_loop db p (fst s) (snd s) = uniform_loop db p (fst s') (snd s')"
  unfolding loop_reaches_def
proof (induction rule: rtranclp_induct)
  case base
  show ?case by simp
next
  case (step y z)
  from step.hyps(2) have "uniform_loop db p (fst y) (snd y) = uniform_loop db p (fst z) (snd z)"
    using uniform_loop_next [of db p "fst y" "snd y" "fst z" "snd z"] by simp
  with step.IH show ?case by simp
qed

lemma uniform_loop_flag_kept_aux:
  "uniform_loop db p q m0 = Some y \<Longrightarrow> m0 \<longrightarrow> snd y"
  by (rule uniform_loop.raw_induct [where P = "\<lambda>db p q m0 y. m0 \<longrightarrow> snd y"])
     (auto split: list.splits step.splits)

lemma uniform_loop_flag_kept: "uniform_loop db p q True = Some (r, m) \<Longrightarrow> m"
  using uniform_loop_flag_kept_aux [of db p q True "(r, m)"] by simp

lemma uniform_loop_flag_source_aux:
  "uniform_loop db p q m0 = Some y \<Longrightarrow>
     snd y \<longrightarrow> m0 \<or> (\<exists>e q' m'. loop_reaches db p (q, m0) (e # q', m') \<and> snd e \<and> address (fst e) = address p)"
proof (rule uniform_loop.raw_induct [where P = "\<lambda>db p q m0 y. snd y \<longrightarrow> m0 \<or>
     (\<exists>e q' m'. loop_reaches db p (q, m0) (e # q', m') \<and> snd e \<and> address (fst e) = address p)"])
  show "uniform_loop db p q m0 = Some y \<Longrightarrow> uniform_loop db p q m0 = Some y" .
next
  fix f :: "transaction \<Rightarrow> expression \<Rightarrow> entry list \<Rightarrow> bool \<Rightarrow> (bool \<times> bool) option"
    and db p_expr queue must_be_uniform y
  assume IH: "\<And>db p_expr queue must_be_uniform y.
        f db p_expr queue must_be_uniform = Some y \<Longrightarrow>
        snd y \<longrightarrow> must_be_uniform \<or>
          (\<exists>e q' m'. loop_reaches db p_expr (queue, must_be_uniform) (e # q', m') \<and>
             snd e \<and> address (fst e) = address p_expr)"
    and body: "(case queue of [] \<Rightarrow> Some (True, must_be_uniform)
      | e # q \<Rightarrow>
          (case loop_body db e q of
             Continue q' \<Rightarrow>
               f db p_expr q' (must_be_uniform \<or> (snd e \<and> address (fst e) = address p_expr))
           | Return r \<Rightarrow>
               Some (r, must_be_uniform \<or> (snd e \<and> address (fst e) = address p_expr))
           | Abort \<Rightarrow> None)) = Some y"
  show "snd y \<longrightarrow> must_be_uniform \<or>
          (\<exists>e q' m'. loop_reaches db p_expr (queue, must_be_uniform) (e # q', m') \<and>
             snd e \<and> address (fst e) = address p_expr)"
  proof (cases queue)
    case Nil
    with body show ?thesis by auto
  next
    case (Cons e q)
    show ?thesis
    proof (cases "snd e \<and> address (fst e) = address p_expr")
      case True
      then show ?thesis using Cons loop_reaches_refl by blast
    next
      case False
      show ?thesis
      proof (cases "loop_body db e q")
        case (Continue q')
        with body Cons False have run: "f db p_expr q' must_be_uniform = Some y"
          by simp
        have nx: "loop_next db p_expr (queue, must_be_uniform) = Some (q', must_be_uniform)"
          using Cons Continue False by (auto simp: loop_next_def)
        show ?thesis
        proof
          assume "snd y"
          with IH [OF run] have "must_be_uniform \<or>
             (\<exists>e q'a m'. loop_reaches db p_expr (q', must_be_uniform) (e # q'a, m') \<and>
                     snd e \<and> address (fst e) = address p_expr)" by simp
          then show "must_be_uniform \<or>
             (\<exists>e q' m'. loop_reaches db p_expr (queue, must_be_uniform) (e # q', m') \<and>
                snd e \<and> address (fst e) = address p_expr)"
          proof
            assume must_be_uniform then show ?thesis ..
          next
            assume "\<exists>e q'a m'. loop_reaches db p_expr (q', must_be_uniform) (e # q'a, m') \<and>
                     snd e \<and> address (fst e) = address p_expr"
            then obtain e' q'' m' where
              "loop_reaches db p_expr (q', must_be_uniform) (e' # q'', m')"
              "snd e' \<and> address (fst e') = address p_expr" by blast
            with loop_reaches_first [OF nx] show ?thesis by blast
          qed
        qed
      next
        case (Return r)
        with body Cons False show ?thesis by auto
      next
        case Abort
        with body Cons show ?thesis by simp
      qed
    qed
  qed
qed


lemma loop_body_constant: "loop_body db (Constant a t, u) q = Continue q"
  by simp

lemma uniform_loop_return:
  "loop_body db e q = Return r \<Longrightarrow>
     uniform_loop db p (e # q) m = Some (r, m \<or> (snd e \<and> address (fst e) = address p))"
  by (subst uniform_loop.simps) simp

lemma uniform_loop_continue:
  "loop_body db e q = Continue q' \<Longrightarrow>
     uniform_loop db p (e # q) m
       = uniform_loop db p q' (m \<or> (snd e \<and> address (fst e) = address p))"
  by (subst uniform_loop.simps) simp

lemma uniform_loop_empty: "uniform_loop db p [] m = Some (True, m)"
  by (subst uniform_loop.simps) simp

lemma uniform_loop_Cons:
  "uniform_loop db p (e # q) m =
     (case loop_body db e q of
        Continue q' \<Rightarrow> uniform_loop db p q' (m \<or> (snd e \<and> address (fst e) = address p))
      | Return r \<Rightarrow> Some (r, m \<or> (snd e \<and> address (fst e) = address p))
      | Abort \<Rightarrow> None)"
  by (subst uniform_loop.simps) simp

lemmas example_defs =
  example_db_def example_module_def function_F_def function_V_def function_W_def
  material_M_def operator_ternary_def ternary_arguments_def
  plain_float_def uniform_float_def plain_bool_def material_type_def
  scenario_args_def scenario_types_def conflict_args_def barrier_args_def plain_types_def
  nested_constant_args_def uniform_types_def direct_material_args_def
  direct_ternary_args_def stored_ternary_args_def older_module_def function_H_def
  draft_module_def function_D_def texture_type_def neuray_module_def

lemmas eval_simps =
  can_enforce_uniform_def seed_entry_def get_expression_def get_type_by_name_def
  path_param_def path_rest_def access_def find_path_def
  uniform_loop_Cons uniform_loop_empty auto_must_be_uniform_def is_uniform_function_def
  operator_to_semantic_def loop_next_def

lemmas variant_simps =
  add_variant_def dereference_prototype_def get_type_by_name_def get_expression_def
  create_annotations_def add_declaration_def create_return_type_name_def

lemmas registry_simps =
  create_module_def create_module_from_stream_def existing_module_def
  is_valid_module_name_def name_to_tag_def add_mdl_db_prefix_def get_class_id_def access_def
  is_identifier_char_def reserve_tag_def store_def store_at_def
  store_for_reference_counting_def name_in_use_def get_name_def


subsection \<open>Materials are never uniform\<close>

text \<open>
  Claim C5. For every path that resolves to a call expression referring to a material
  instance: if the loop pops that node with the uniform requirement true,
  \<^verbatim>\<open>can_enforce_uniform\<close> returns false. The node is the target \<^verbatim>\<open>p_expr\<close>, so
  \<^verbatim>\<open>must_be_uniform\<close> has been set when the function returns.
\<close>

theorem material_instance_barrier:
  assumes "find_path db path args = Some (Call a t c)"
      and "access db c = Some (Mdl_material_instance inst)"
      and "seed_entry args param_types path = Some e0"
      and "pops db (Call a t c) e0 (Call a t c, True)"
  shows "can_enforce_uniform db args param_types path (Call a t c) = Some (False, True)"
proof -
  from assms(4) obtain q m where
    r: "loop_reaches db (Call a t c) ([e0], False) ((Call a t c, True) # q, m)"
    unfolding pops_def by blast
  have lb: "loop_body db (Call a t c, True) q = Return False"
    using assms(2) by simp
  have "uniform_loop db (Call a t c) ((Call a t c, True) # q) m = Some (False, True)"
    using uniform_loop_return [OF lb, of "Call a t c" m] by simp
  with uniform_loop_reaches [OF r] assms(3) show ?thesis
    by (simp add: can_enforce_uniform_def)
qed

theorem material_instance_barrier_witness:
  "find_path example_db ''a.x'' barrier_args = Some (Call 103 material_type 6)
   \<and> pops example_db (Call 103 material_type 6) (Call 121 plain_float 8, False)
         (Call 103 material_type 6, True)
   \<and> can_enforce_uniform example_db barrier_args plain_types ''a.x''
         (Call 103 material_type 6) = Some (False, True)"
proof -
  have h1: "find_path example_db ''a.x'' barrier_args = Some (Call 103 material_type 6)"
    by (simp add: eval_simps example_defs)
  have h2: "access example_db 6 = Some (Mdl_material_instance
               \<lparr>mi_material_definition = ''mdl::example::M(float)'',
                mi_arguments = [(''tint'', Constant 102 plain_float)],
                mi_parameter_types = [(''tint'', plain_float)]\<rparr>)"
    by (simp add: eval_simps example_defs)
  have h3: "seed_entry barrier_args plain_types ''a.x'' = Some (Call 121 plain_float 8, False)"
    by (simp add: eval_simps example_defs)
  have "loop_next example_db (Call 103 material_type 6) ([(Call 121 plain_float 8, False)], False)
          = Some ([(Call 103 material_type 6, True)], False)"
    by (simp add: eval_simps example_defs)
  then have "loop_reaches example_db (Call 103 material_type 6)
               ([(Call 121 plain_float 8, False)], False) ((Call 103 material_type 6, True) # [], False)"
    using loop_reaches_first loop_reaches_refl by blast
  then have h4: "pops example_db (Call 103 material_type 6) (Call 121 plain_float 8, False)
         (Call 103 material_type 6, True)"
    unfolding pops_def by blast
  from material_instance_barrier [OF h1 h2 h3 h4] h1 h4 show ?thesis by blast
qed

text \<open>
  Claim C10. A direct call that refers to a material definition makes the loop return
  false whatever the uniform requirement of the popped entry is, and so does
  \<^verbatim>\<open>can_enforce_uniform\<close> once the loop pops such an entry; nothing else is asked of
  the database. A call that refers to a material instance, wherever the database has
  one, returns false only under the requirement true and is passed over under the
  requirement false.
\<close>

theorem direct_call_of_material_definition_fails:
  assumes "access db d = Some (Mdl_material_definition mat)"
  shows "loop_body db (Direct_call a t d dargs, is_uniform) q = Return False
       \<and> (seed_entry args param_types path = Some e0
            \<and> pops db p e0 (Direct_call a t d dargs, is_uniform)
          \<longrightarrow> (\<exists>m. can_enforce_uniform db args param_types path p = Some (False, m)))
       \<and> (\<forall>c inst. access db c = Some (Mdl_material_instance inst)
            \<longrightarrow> loop_body db (Call a' t' c, True) q = Return False
                \<and> loop_body db (Call a' t' c, False) q = Continue q)"
proof -
  have b: "\<And>q. loop_body db (Direct_call a t d dargs, is_uniform) q = Return False"
    using assms(1) by simp
  have "\<exists>m. can_enforce_uniform db args param_types path p = Some (False, m)"
    if s: "seed_entry args param_types path = Some e0"
      and pp: "pops db p e0 (Direct_call a t d dargs, is_uniform)"
  proof -
    from pp obtain q' m' where
      r: "loop_reaches db p ([e0], False) ((Direct_call a t d dargs, is_uniform) # q', m')"
      unfolding pops_def by blast
    from uniform_loop_reaches [OF r] uniform_loop_return [OF b] s show ?thesis
      by (simp add: can_enforce_uniform_def)
  qed
  with b show ?thesis by simp
qed

theorem direct_call_of_material_definition_fails_witness:
  "loop_body example_db (Direct_call 130 material_type 4 [], False) [] = Return False
   \<and> loop_body example_db (Direct_call 130 material_type 4 [], True) [] = Return False
   \<and> can_enforce_uniform example_db direct_material_args plain_types ''a''
        (Direct_call 130 material_type 4 []) = Some (False, False)
   \<and> loop_body example_db (Call 103 material_type 6, True) [] = Return False
   \<and> loop_body example_db (Call 103 material_type 6, False) [] = Continue []"
proof -
  have h1: "access example_db 4 = Some (Mdl_material_definition material_M)"
    by (simp add: eval_simps example_defs)
  have h2: "access example_db 6 = Some (Mdl_material_instance
               \<lparr>mi_material_definition = ''mdl::example::M(float)'',
                mi_arguments = [(''tint'', Constant 102 plain_float)],
                mi_parameter_types = [(''tint'', plain_float)]\<rparr>)"
    by (simp add: eval_simps example_defs)
  have h3: "seed_entry direct_material_args plain_types ''a''
              = Some (Direct_call 130 material_type 4 [], False)"
    by (simp add: eval_simps example_defs)
  have h4: "pops example_db (Direct_call 130 material_type 4 [])
              (Direct_call 130 material_type 4 [], False) (Direct_call 130 material_type 4 [], False)"
    unfolding pops_def using loop_reaches_refl by blast
  have r: "can_enforce_uniform example_db direct_material_args plain_types ''a''
        (Direct_call 130 material_type 4 []) = Some (False, False)"
    by (simp add: eval_simps example_defs)
  note t1 = direct_call_of_material_definition_fails [OF h1,
       of 130 material_type "[]" False "[]" direct_material_args plain_types "''a''"
          "(Direct_call 130 material_type 4 [], False)" "Direct_call 130 material_type 4 []"
          103 material_type]
  note t2 = direct_call_of_material_definition_fails [OF h1,
       of 130 material_type "[]" True "[]"]
  from t1 have a: "loop_body example_db (Direct_call 130 material_type 4 [], False) [] = Return False"
    by blast
  from t2 have b: "loop_body example_db (Direct_call 130 material_type 4 [], True) [] = Return False"
    by blast
  from t1 h3 h4 have c: "\<exists>m. can_enforce_uniform example_db direct_material_args plain_types ''a''
        (Direct_call 130 material_type 4 []) = Some (False, m)"
    by blast
  from t1 h2 have d: "loop_body example_db (Call 103 material_type 6, True) [] = Return False
                \<and> loop_body example_db (Call 103 material_type 6, False) [] = Continue []"
    by blast
  from a b c d r show ?thesis by simp
qed

subsection \<open>When the new parameter must be uniform\<close>

text \<open>
  Claim C3, as the code has it. \<^verbatim>\<open>must_be_uniform\<close> is true on return exactly when
  the loop has popped an entry whose expression is the target node (the same address)
  with the requirement true. In the scenario \<open>G(F(p))\<close>, where the parameter of \<open>G\<close>
  is declared uniform, the type of the call \<open>F(p)\<close> is uniform and the parameter \<open>x\<close>
  of \<open>F\<close> is declared uniform (and not varying), the loop pops \<open>p\<close> with the
  requirement true, so every return has \<^verbatim>\<open>must_be_uniform\<close> set; the call returns
  true when \<open>p\<close> is a constant. What it returns for another \<open>p\<close> is decided by the
  analysis of \<open>p\<close> itself.
\<close>

theorem must_be_uniform_exactly_when_target_popped:
  "(can_enforce_uniform db args param_types path p = Some (r, must_be_uniform) \<longrightarrow>
      must_be_uniform =
        (\<exists>e0 e. seed_entry args param_types path = Some e0 \<and> pops db p e0 e
                  \<and> snd e \<and> address (fst e) = address p))
   \<and> (get_expression args (path_param path) = Some (Call a ret_tp c)
        \<and> get_type_by_name param_types (path_param path) = Some g_type
        \<and> MK_UNIFORM \<in> get_all_type_modifiers g_type
        \<and> access db c = Some (Mdl_function_call fcall)
        \<and> access db (fc_function_definition fcall) = Some (Mdl_function_definition F)
        \<and> MK_UNIFORM \<in> get_all_type_modifiers ret_tp
        \<and> fc_arguments fcall = [(x, p)]
        \<and> d_mdl_parameter_types F = [x_type]
        \<and> MK_UNIFORM \<in> get_type_modifiers x_type
        \<and> MK_VARYING \<notin> get_type_modifiers x_type
      \<longrightarrow> pops db p (Call a ret_tp c, True) (p, True)
          \<and> (\<forall>r' m. can_enforce_uniform db args param_types path p = Some (r', m) \<longrightarrow> m)
          \<and> (get_kind p = EK_CONSTANT
               \<longrightarrow> can_enforce_uniform db args param_types path p = Some (True, True)))"
proof (intro conjI impI)
  assume run0: "can_enforce_uniform db args param_types path p = Some (r, must_be_uniform)"
  then obtain e0 where s: "seed_entry args param_types path = Some e0"
    and run: "uniform_loop db p [e0] False = Some (r, must_be_uniform)"
    by (auto simp: can_enforce_uniform_def split: option.splits)
  show "must_be_uniform =
        (\<exists>e0 e. seed_entry args param_types path = Some e0 \<and> pops db p e0 e
                  \<and> snd e \<and> address (fst e) = address p)"
  proof
    assume must_be_uniform
    with uniform_loop_flag_source_aux [OF run] s show
      "\<exists>e0 e. seed_entry args param_types path = Some e0 \<and> pops db p e0 e
                     \<and> snd e \<and> address (fst e) = address p"
      unfolding pops_def by auto
  next
    assume "\<exists>e0 e. seed_entry args param_types path = Some e0 \<and> pops db p e0 e
                     \<and> snd e \<and> address (fst e) = address p"
    with s obtain e q m where rc: "loop_reaches db p ([e0], False) (e # q, m)"
      and hit: "snd e" "address (fst e) = address p"
      unfolding pops_def by auto
    from uniform_loop_reaches [OF rc] run
    have run': "uniform_loop db p (e # q) m = Some (r, must_be_uniform)" by simp
    show must_be_uniform
    proof (cases "loop_body db e q")
      case (Continue q')
      with run' hit have "uniform_loop db p q' True = Some (r, must_be_uniform)"
        by (simp add: uniform_loop_continue)
      then show ?thesis by (rule uniform_loop_flag_kept)
    next
      case (Return r')
      with run' hit show ?thesis by (simp add: uniform_loop_return)
    next
      case Abort
      with run' show ?thesis by (subst (asm) uniform_loop.simps) simp
    qed
  qed
next
  assume sc: "get_expression args (path_param path) = Some (Call a ret_tp c)
        \<and> get_type_by_name param_types (path_param path) = Some g_type
        \<and> MK_UNIFORM \<in> get_all_type_modifiers g_type
        \<and> access db c = Some (Mdl_function_call fcall)
        \<and> access db (fc_function_definition fcall) = Some (Mdl_function_definition F)
        \<and> MK_UNIFORM \<in> get_all_type_modifiers ret_tp
        \<and> fc_arguments fcall = [(x, p)]
        \<and> d_mdl_parameter_types F = [x_type]
        \<and> MK_UNIFORM \<in> get_type_modifiers x_type
        \<and> MK_VARYING \<notin> get_type_modifiers x_type"
  then have seed: "seed_entry args param_types path = Some (Call a ret_tp c, True)"
    by (simp add: seed_entry_def)
  from sc have body: "loop_body db (Call a ret_tp c, True) [] = Continue [(p, True)]"
    by (simp add: auto_must_be_uniform_def Let_def)
  then have nx: "loop_next db p ([(Call a ret_tp c, True)], False)
                   = Some ([(p, True)], a = address p)"
    by (simp add: loop_next_def)
  have rc: "loop_reaches db p ([(Call a ret_tp c, True)], False) ((p, True) # [], a = address p)"
    using loop_reaches_first [OF nx loop_reaches_refl] .
  then show pp: "pops db p (Call a ret_tp c, True) (p, True)"
    unfolding pops_def by blast
  have eq: "can_enforce_uniform db args param_types path p
              = uniform_loop db p [(p, True)] (a = address p)"
    using uniform_loop_reaches [OF rc] seed by (simp add: can_enforce_uniform_def)
  show "\<forall>r' m. can_enforce_uniform db args param_types path p = Some (r', m) \<longrightarrow> m"
  proof (intro allI impI)
    fix r' m
    assume "can_enforce_uniform db args param_types path p = Some (r', m)"
    with eq have run: "uniform_loop db p [(p, True)] (a = address p) = Some (r', m)" by simp
    show m
    proof (cases "loop_body db (p, True) []")
      case (Continue q')
      with run have "uniform_loop db p q' True = Some (r', m)"
        by (simp add: uniform_loop_continue)
      then show ?thesis by (rule uniform_loop_flag_kept)
    next
      case (Return r'')
      with run show ?thesis by (simp add: uniform_loop_return)
    next
      case Abort
      with run show ?thesis by (subst (asm) uniform_loop.simps) simp
    qed
  qed
  show "can_enforce_uniform db args param_types path p = Some (True, True)"
    if "get_kind p = EK_CONSTANT"
  proof -
    from that obtain pa pt where "p = Constant pa pt" by (cases p) auto
    then show ?thesis
      using eq by (simp add: uniform_loop_Cons uniform_loop_empty)
  qed
qed

theorem must_be_uniform_exactly_when_target_popped_witness:
  "can_enforce_uniform example_db scenario_args scenario_types ''g.x''
       (Constant 101 plain_float) = Some (True, True)
   \<and> (\<exists>e0 e. seed_entry scenario_args scenario_types ''g.x'' = Some e0
          \<and> pops example_db (Constant 101 plain_float) e0 e
          \<and> snd e \<and> address (fst e) = address (Constant 101 plain_float))
   \<and> pops example_db (Constant 101 plain_float) (Call 120 uniform_float 5, True)
        (Constant 101 plain_float, True)"
proof -
  have h: "get_expression scenario_args (path_param ''g.x'') = Some (Call 120 uniform_float 5)
        \<and> get_type_by_name scenario_types (path_param ''g.x'') = Some uniform_float
        \<and> MK_UNIFORM \<in> get_all_type_modifiers uniform_float
        \<and> access example_db 5 = Some (Mdl_function_call
               \<lparr>fc_function_definition = 2, fc_arguments = [(''x'', Constant 101 plain_float)],
                fc_parameter_types = [(''x'', uniform_float)]\<rparr>)
        \<and> access example_db (fc_function_definition
               \<lparr>fc_function_definition = 2, fc_arguments = [(''x'', Constant 101 plain_float)],
                fc_parameter_types = [(''x'', uniform_float)]\<rparr>)
             = Some (Mdl_function_definition function_F)
        \<and> MK_UNIFORM \<in> get_all_type_modifiers uniform_float
        \<and> fc_arguments
               \<lparr>fc_function_definition = 2, fc_arguments = [(''x'', Constant 101 plain_float)],
                fc_parameter_types = [(''x'', uniform_float)]\<rparr> = [(''x'', Constant 101 plain_float)]
        \<and> d_mdl_parameter_types function_F = [\<lparr>get_type_modifiers = {MK_UNIFORM}\<rparr>]
        \<and> MK_UNIFORM \<in> get_type_modifiers \<lparr>get_type_modifiers = {MK_UNIFORM}\<rparr>
        \<and> MK_VARYING \<notin> get_type_modifiers \<lparr>get_type_modifiers = {MK_UNIFORM}\<rparr>"
    by (simp add: eval_simps example_defs)
  have k: "get_kind (Constant 101 plain_float) = EK_CONSTANT" by simp
  note t = must_be_uniform_exactly_when_target_popped
             [of example_db scenario_args scenario_types "''g.x''" "Constant 101 plain_float"
                 True True 120 uniform_float 5 uniform_float _ function_F "''x''"
                 "\<lparr>get_type_modifiers = {MK_UNIFORM}\<rparr>"]
  from t h k have r: "can_enforce_uniform example_db scenario_args scenario_types ''g.x''
       (Constant 101 plain_float) = Some (True, True)" by blast
  from t h have p: "pops example_db (Constant 101 plain_float) (Call 120 uniform_float 5, True)
        (Constant 101 plain_float, True)" by blast
  from t r have "\<exists>e0 e. seed_entry scenario_args scenario_types ''g.x'' = Some e0
          \<and> pops example_db (Constant 101 plain_float) e0 e
          \<and> snd e \<and> address (fst e) = address (Constant 101 plain_float)" by blast
  with r p show ?thesis by blast
qed

text \<open>
  The claim as stated promises success in the scenario for every \<open>p\<close>. With \<open>p\<close> the
  stored call \<open>V()\<close> of a varying function the scenario holds and the analysis returns
  false, with \<^verbatim>\<open>must_be_uniform\<close> set.
\<close>

theorem scenario_success_counterexample:
  "find_path example_db ''g.x'' conflict_args = Some (Call 111 plain_float 7)
   \<and> get_type_by_name scenario_types (path_param ''g.x'') = Some uniform_float
   \<and> MK_UNIFORM \<in> get_all_type_modifiers uniform_float
   \<and> access example_db 14 = Some (Mdl_function_call
          \<lparr>fc_function_definition = 2, fc_arguments = [(''x'', Call 111 plain_float 7)],
           fc_parameter_types = [(''x'', uniform_float)]\<rparr>)
   \<and> access example_db 2 = Some (Mdl_function_definition function_F)
   \<and> d_mdl_parameter_types function_F = [\<lparr>get_type_modifiers = {MK_UNIFORM}\<rparr>]
   \<and> can_enforce_uniform example_db conflict_args scenario_types ''g.x''
        (Call 111 plain_float 7) = Some (False, True)"
  by (simp add: eval_simps example_defs)

subsection \<open>Constants\<close>

text \<open>
  Claim C4, as the code has it. A constant that is popped never ends the loop and adds
  nothing to the queue. When the path has a single segment and resolves to a constant,
  the constant is the only entry, and \<^verbatim>\<open>can_enforce_uniform\<close> returns true whether the
  type of the parameter is uniform or not; \<^verbatim>\<open>must_be_uniform\<close> is that seed.
\<close>

theorem constant_at_root_always_succeeds:
  assumes "find_path db path args = Some (Constant a t)"
      and "path_rest path = None"
      and "get_type_by_name param_types (path_param path) = Some p_type"
  shows "can_enforce_uniform db args param_types path (Constant a t)
           = Some (True, MK_UNIFORM \<in> get_all_type_modifiers p_type)
         \<and> loop_body db (Constant a t, is_uniform) queue = Continue queue"
proof -
  from assms(1,2) have "get_expression args (path_param path) = Some (Constant a t)"
    by (simp add: find_path_def split: option.splits)
  with assms(3) have "seed_entry args param_types path
      = Some (Constant a t, MK_UNIFORM \<in> get_all_type_modifiers p_type)"
    by (simp add: seed_entry_def)
  then show ?thesis
    by (simp add: can_enforce_uniform_def uniform_loop_Cons uniform_loop_empty)
qed

theorem constant_at_root_always_succeeds_witness:
  "find_path example_db ''tint'' [(''tint'', Constant 102 plain_float)]
       = Some (Constant 102 plain_float)
   \<and> path_rest ''tint'' = None
   \<and> can_enforce_uniform example_db [(''tint'', Constant 102 plain_float)]
        [(''tint'', uniform_float)] ''tint'' (Constant 102 plain_float) = Some (True, True)
   \<and> can_enforce_uniform example_db [(''tint'', Constant 102 plain_float)]
        [(''tint'', plain_float)] ''tint'' (Constant 102 plain_float) = Some (True, False)"
proof -
  have h1: "find_path example_db ''tint'' [(''tint'', Constant 102 plain_float)]
       = Some (Constant 102 plain_float)"
    by (simp add: eval_simps example_defs)
  have h2: "path_rest ''tint'' = None"
    by (simp add: path_rest_def)
  have h3: "get_type_by_name [(''tint'', uniform_float)] (path_param ''tint'') = Some uniform_float"
    by (simp add: eval_simps)
  have h4: "get_type_by_name [(''tint'', plain_float)] (path_param ''tint'') = Some plain_float"
    by (simp add: eval_simps)
  from constant_at_root_always_succeeds [OF h1 h2 h3]
       constant_at_root_always_succeeds [OF h1 h2 h4] h1 h2
  show ?thesis by (simp add: uniform_float_def plain_float_def)
qed

text \<open>
  The claim as stated covers every path that resolves to a constant. The analysis starts
  at the argument of the first segment and walks its whole tree: the path \<open>a.x\<close> below
  resolves to a constant, but \<open>a\<close> is declared uniform and bound to a call of the
  varying function \<open>W\<close>, and the analysis returns false.
\<close>

theorem constant_in_conflicting_tree_counterexample:
  "find_path example_db ''a.x'' nested_constant_args = Some (Constant 104 plain_float)
   \<and> can_enforce_uniform example_db nested_constant_args uniform_types ''a.x''
        (Constant 104 plain_float) = Some (False, False)"
  by (simp add: eval_simps example_defs)

subsection \<open>The condition of the ternary operator\<close>

text \<open>
  In the loop of the \<^verbatim>\<open>EK_CALL\<close> branch the first argument of the ternary operator is
  pushed with the requirement true.
\<close>

lemma push_call_arguments_ternary:
  "push_call_arguments True auto_mbu ptypes 0 ((name, e) # args) = Some es \<Longrightarrow>
     \<exists>rest. es = (e, True) # rest"
  by (auto split: if_splits)

text \<open>
  Claim C2 at a direct call of the ternary operator, popped with the requirement false:
  the loop of the \<^verbatim>\<open>EK_DIRECT_CALL\<close> branch pushes the condition with the requirement
  false, and promoting the condition yields \<^verbatim>\<open>must_be_uniform = false\<close>. The same
  arguments behind a stored call are pushed with the requirement true for the condition.
\<close>

theorem ternary_condition_of_direct_call:
  "loop_body example_db (Direct_call 106 plain_float 12 ternary_arguments, False) []
     = Continue [(Constant 107 plain_bool, False), (Constant 108 plain_float, False),
                 (Constant 109 plain_float, False)]
   \<and> loop_body example_db (Call 106 plain_float 13, False) []
     = Continue [(Constant 107 plain_bool, True), (Constant 108 plain_float, False),
                 (Constant 109 plain_float, False)]
   \<and> find_path example_db ''a.cond'' direct_ternary_args = Some (Constant 107 plain_bool)
   \<and> can_enforce_uniform example_db direct_ternary_args plain_types ''a.cond''
        (Constant 107 plain_bool) = Some (True, False)
   \<and> find_path example_db ''a.cond'' stored_ternary_args = Some (Constant 107 plain_bool)
   \<and> can_enforce_uniform example_db stored_ternary_args plain_types ''a.cond''
        (Constant 107 plain_bool) = Some (True, True)"
  by (simp add: eval_simps example_defs)

section \<open>Properties of the driver\<close>

subsection \<open>The language version of a module of variants\<close>

text \<open>
  The loop keeps the lexicographic maximum of its start value and the versions read so
  far.
\<close>

lemma detect_version_result:
  assumes "\<forall>pd \<in> set vs. prototype_version db pd \<noteq> None"
  shows "\<exists>r. detect_version db vs max_major max_minor = Some (Inr r)
           \<and> (r = (max_major, max_minor) \<or> r \<in> set (map (\<lambda>pd. the (prototype_version db pd)) vs))
           \<and> \<not> version_less r (max_major, max_minor)
           \<and> (\<forall>pd \<in> set vs. \<not> version_less r (the (prototype_version db pd)))"
  using assms
proof (induction vs arbitrary: max_major max_minor)
  case Nil
  show ?case by (simp add: version_less_def)
next
  case (Cons pd vs)
  from Cons.prems obtain major minor where v: "prototype_version db pd = Some (major, minor)"
    by (cases "prototype_version db pd") auto
  from Cons.prems have rest: "\<forall>pd \<in> set vs. prototype_version db pd \<noteq> None" by simp
  define acc where "acc =
     (if major > max_major then (major, minor)
      else if major = max_major \<and> minor > max_minor then (max_major, minor)
      else (max_major, max_minor))"
  have step: "detect_version db (pd # vs) max_major max_minor
                = detect_version db vs (fst acc) (snd acc)"
    using v unfolding acc_def
    by (auto simp: prototype_version_def split: option.splits db_element.splits)
  from Cons.IH [OF rest, of "fst acc" "snd acc"] obtain r where
    r: "detect_version db vs (fst acc) (snd acc) = Some (Inr r)"
       "r = acc \<or> r \<in> set (map (\<lambda>pd. the (prototype_version db pd)) vs)"
       "\<not> version_less r acc"
       "\<forall>pd \<in> set vs. \<not> version_less r (the (prototype_version db pd))"
    by auto
  have a1: "acc = (max_major, max_minor) \<or> acc = (major, minor)"
    unfolding acc_def by auto
  have a2: "\<not> version_less acc (max_major, max_minor)" "\<not> version_less acc (major, minor)"
    unfolding acc_def by (auto simp: version_less_def)
  have tr: "\<not> version_less r w" if "\<not> version_less acc w" for w
    using r(3) that by (cases r; cases acc; cases w) (auto simp: version_less_def)
  show ?case
    using step r a1 tr [OF a2(1)] tr [OF a2(2)] v by auto
qed

text \<open>
  For a list of prototypes that is not empty and has no version below 1.0, the result is
  the maximum of the versions of the prototypes alone.
\<close>

lemma detected_version_is_maximum_of_prototypes:
  assumes "variant_data \<noteq> []"
      and "\<forall>pd \<in> set variant_data.
             \<exists>v. prototype_version db pd = Some v \<and> \<not> version_less v (1, 0)"
  shows "\<exists>v. is_maximum_version v (map (\<lambda>pd. the (prototype_version db pd)) variant_data)
           \<and> detected_mdl_version db variant_data = Some (Inr (version_of (fst v) (snd v)))"
proof -
  from assms(2) have ok: "\<forall>pd \<in> set variant_data. prototype_version db pd \<noteq> None" by auto
  from detect_version_result [OF ok, of 1 0] obtain r where
    r: "detect_version db variant_data 1 0 = Some (Inr r)"
       "r = (1, 0) \<or> r \<in> set (map (\<lambda>pd. the (prototype_version db pd)) variant_data)"
       "\<forall>pd \<in> set variant_data. \<not> version_less r (the (prototype_version db pd))"
    by blast
  have mem: "r \<in> set (map (\<lambda>pd. the (prototype_version db pd)) variant_data)"
  proof (cases "r = (1, 0)")
    case True
    from assms(1) obtain pd where pd: "pd \<in> set variant_data" by (cases variant_data) auto
    with assms(2) obtain v where v: "prototype_version db pd = Some v" "\<not> version_less v (1, 0)"
      by blast
    from r(3) pd v True have "\<not> version_less (1, 0) v" by auto
    with v(2) have "v = (1, 0)" by (cases v) (auto simp: version_less_def)
    with v(1) pd True show ?thesis by force
  next
    case False
    with r(2) show ?thesis by simp
  qed
  have mx: "is_maximum_version r (map (\<lambda>pd. the (prototype_version db pd)) variant_data)"
    unfolding is_maximum_version_def using mem r(3) by auto
  have det: "detected_mdl_version db variant_data = Some (Inr (version_of (fst r) (snd r)))"
    using r(1) by (cases r) (simp add: detected_mdl_version_def)
  with mx show ?thesis by blast
qed

lemmas driver_simps =
  prototype_version_def detected_mdl_version_def version_of_def access_def
  is_maximum_version_def version_less_def






section \<open>Properties of the synthesis\<close>

subsection \<open>Promoted resource parameters\<close>

lemma promoted_type_name_resource:
  "is_resource_type (get_type (np_init pd)) \<Longrightarrow>
     tn_qualifier (promoted_type_name mdl pd) = FQ_UNIFORM"
  by (auto simp: promoted_type_name_def is_resource_type_def Let_def set_qualifier_def)

lemma collect_new_parameters_inits:
  "collect_new_parameters db args param_types pds = Some (Inr nps) \<Longrightarrow>
     list_all2 (\<lambda>pd np. find_path db (pd_path pd) args = Some (np_init np)) pds nps"
proof (induction pds arbitrary: nps)
  case Nil
  then show ?case by simp
next
  case (Cons pd pds)
  from Cons.prems obtain expr ok mbu nps' where
    e: "find_path db (pd_path pd) args = Some expr"
    and rest: "collect_new_parameters db args param_types pds = Some (Inr nps')"
    and nps: "nps = \<lparr>np_sym = pd_name pd, np_init = expr, np_annos = pd_annotations pd,
                      np_is_uniform = mbu \<or> pd_enforce_uniform pd\<rparr> # nps'"
    by (auto split: option.splits if_splits sum.splits)
  from Cons.IH [OF rest] e nps show ?case by simp
qed

lemma collect_new_parameters_status:
  "collect_new_parameters db args param_types pds = Some (Inl r) \<Longrightarrow> r = -13 \<or> r = -15"
  by (induction pds arbitrary: r) (auto split: option.splits if_splits sum.splits)

lemma add_parameters_type_names:
  "add_parameters db mdl nps fdecl importer = Some (0, fdecl', importer') \<Longrightarrow>
     map ap_type_name (df_parameters fdecl')
       = map ap_type_name (df_parameters fdecl) @ map (promoted_type_name mdl) nps"
proof (induction nps arbitrary: fdecl importer)
  case Nil
  then show ?case by simp
next
  case (Cons pd nps)
  from Cons.prems obtain p_annos importer1 where
    rest: "add_parameters db mdl nps
              (fdecl\<lparr>df_parameters := df_parameters fdecl @
                  [\<lparr>ap_type_name = promoted_type_name mdl pd, ap_name = np_sym pd,
                    ap_init = transform_expr mdl [] (np_init pd), ap_annotations = p_annos\<rparr>]\<rparr>)
              (case transform_expr mdl [] (np_init pd) of
                 None \<Rightarrow> importer1
               | Some init \<Rightarrow> importer1 @ [Imports_of_expression init])
            = Some (0, fdecl', importer')"
    by (auto split: option.splits if_splits)
  from Cons.IH [OF rest] show ?case by simp
qed

lemmas synthesis_simps =
  add_material_def Material_call_def create_annotations_def promoted_type_name_def
  set_qualifier_def add_declaration_def is_resource_type_def

text \<open>
  Claim C9. When \<^verbatim>\<open>add_material\<close> succeeds, the declaration it adds has one parameter
  for each promotion request, in their order, and every parameter whose path resolves to
  an expression of texture, BSDF-measurement or light-profile type has the qualifier
  \<^verbatim>\<open>FQ_UNIFORM\<close> on its type name, whatever the uniform analysis and the
  enforce-uniform flag of the request said.
\<close>

theorem resource_parameters_are_uniform:
  assumes "add_material db mdl symbol_importer module callee md = Some (0, module', importer')"
  shows "\<exists>args fdecl.
           get_arguments callee = Some args
           \<and> module' = add_declaration fdecl module
           \<and> list_all2
                (\<lambda>pd param. \<forall>expr. find_path db (pd_path pd) args = Some expr
                                \<and> is_resource_type (get_type expr)
                              \<longrightarrow> tn_qualifier (ap_type_name param) = FQ_UNIFORM)
                (md_parameters md) (df_parameters fdecl)"
proof -
  from assms obtain args where args: "get_arguments callee = Some args"
    by (auto simp: add_material_def split: option.splits if_splits)
  from assms args obtain nps where
    nps: "collect_new_parameters db args (get_parameter_types callee) (md_parameters md)
            = Some (Inr nps)"
    by (auto simp: add_material_def split: option.splits if_splits sum.splits
             dest: collect_new_parameters_status)
  from assms args nps obtain fdecl0 fdecl imp0 imp1 where
    ap: "add_parameters db mdl nps fdecl0 imp0 = Some (0, fdecl, imp1)"
    and f0: "df_parameters fdecl0 = []"
    and m: "module' = add_declaration fdecl module"
    by (auto simp: add_material_def Let_def split: option.splits if_splits)
  from add_parameters_type_names [OF ap] f0
  have tn: "map ap_type_name (df_parameters fdecl) = map (promoted_type_name mdl) nps" by simp
  have len: "length (df_parameters fdecl) = length nps"
    using arg_cong [OF tn, of length] by simp
  from collect_new_parameters_inits [OF nps]
  have l2: "list_all2 (\<lambda>pd np. find_path db (pd_path pd) args = Some (np_init np))
              (md_parameters md) nps" .
  have "list_all2
          (\<lambda>pd param. \<forall>expr. find_path db (pd_path pd) args = Some expr
                          \<and> is_resource_type (get_type expr)
                        \<longrightarrow> tn_qualifier (ap_type_name param) = FQ_UNIFORM)
          (md_parameters md) (df_parameters fdecl)"
  proof (rule list_all2_all_nthI)
    show "length (md_parameters md) = length (df_parameters fdecl)"
      using list_all2_lengthD [OF l2] len by simp
  next
    fix i assume i: "i < length (md_parameters md)"
    then have i2: "i < length nps" using list_all2_lengthD [OF l2] by simp
    from list_all2_nthD [OF l2 i]
    have fp: "find_path db (pd_path (md_parameters md ! i)) args = Some (np_init (nps ! i))" .
    have "ap_type_name (df_parameters fdecl ! i) = promoted_type_name mdl (nps ! i)"
      using arg_cong [OF tn, of "\<lambda>xs. xs ! i"] i2 len by simp
    then show "\<forall>expr. find_path db (pd_path (md_parameters md ! i)) args = Some expr
                          \<and> is_resource_type (get_type expr)
                        \<longrightarrow> tn_qualifier (ap_type_name (df_parameters fdecl ! i)) = FQ_UNIFORM"
      using fp promoted_type_name_resource by auto
  qed
  with args m show ?thesis by blast
qed

theorem resource_parameters_are_uniform_witness:
  "can_enforce_uniform example_db (mi_arguments textured_instance)
       (mi_parameter_types textured_instance) ''tex'' (Constant 150 texture_type)
     = Some (True, False)
   \<and> (\<exists>module' importer' fdecl.
         add_material example_db example_services [] empty_module
             (Material_call textured_instance) promote_texture = Some (0, module', importer')
         \<and> module' = add_declaration fdecl empty_module
         \<and> map (\<lambda>p. tn_qualifier (ap_type_name p)) (df_parameters fdecl)
             = [FQ_UNIFORM, FQ_NONE])"
proof -
  have verdict: "can_enforce_uniform example_db (mi_arguments textured_instance)
       (mi_parameter_types textured_instance) ''tex'' (Constant 150 texture_type)
     = Some (True, False)"
    by (simp add: eval_simps example_defs textured_instance_def)
  have "\<exists>module' importer'.
         add_material example_db example_services [] empty_module
             (Material_call textured_instance) promote_texture = Some (0, module', importer')
         \<and> map (\<lambda>p. tn_qualifier (ap_type_name p))
               (df_parameters (last (am_declarations module'))) = [FQ_UNIFORM, FQ_NONE]"
    by (simp add: synthesis_simps eval_simps example_defs textured_instance_def
          promote_texture_def example_services_def empty_module_def Let_def)
  then obtain module' where "\<exists>importer'.
         add_material example_db example_services [] empty_module
             (Material_call textured_instance) promote_texture = Some (0, module', importer')
         \<and> map (\<lambda>p. tn_qualifier (ap_type_name p))
               (df_parameters (last (am_declarations module'))) = [FQ_UNIFORM, FQ_NONE]" ..
  then obtain importer' where both:
        "add_material example_db example_services [] empty_module
             (Material_call textured_instance) promote_texture = Some (0, module', importer')
         \<and> map (\<lambda>p. tn_qualifier (ap_type_name p))
               (df_parameters (last (am_declarations module'))) = [FQ_UNIFORM, FQ_NONE]" ..
  from both have run: "add_material example_db example_services [] empty_module
             (Material_call textured_instance) promote_texture = Some (0, module', importer')" ..
  from both have q: "map (\<lambda>p. tn_qualifier (ap_type_name p))
               (df_parameters (last (am_declarations module'))) = [FQ_UNIFORM, FQ_NONE]" ..
  from resource_parameters_are_uniform [OF run] obtain fdecl where
    m: "module' = add_declaration fdecl empty_module" by (elim exE conjE)
  then have "last (am_declarations module') = fdecl"
    by (simp add: add_declaration_def)
  with q have q': "map (\<lambda>p. tn_qualifier (ap_type_name p)) (df_parameters fdecl)
             = [FQ_UNIFORM, FQ_NONE]" by simp
  from run m q' have "\<exists>module' importer' fdecl.
         add_material example_db example_services [] empty_module
             (Material_call textured_instance) promote_texture = Some (0, module', importer')
         \<and> module' = add_declaration fdecl empty_module
         \<and> map (\<lambda>p. tn_qualifier (ap_type_name p)) (df_parameters fdecl)
             = [FQ_UNIFORM, FQ_NONE]"
    by (intro exI conjI)
  with verdict show ?thesis ..
qed

subsection \<open>Defaults of a variant\<close>

lemma check_defaults_append:
  "check_defaults mdl expected (pre @ rest) =
     (if check_defaults mdl expected pre \<noteq> 0 then check_defaults mdl expected pre
      else check_defaults mdl expected rest)"
  by (induction pre) (auto split: option.splits)

text \<open>The statuses of \<^verbatim>\<open>create_module_internal\<close> and of the loop over the imports.\<close>

lemma create_module_internal_status:
  "fst (create_module_internal db m) \<in> {-4, -3, -2, 0, 1}"
  "(case fst (resolve_imports db ms) of Inl r \<Rightarrow> r \<in> {-4, -3} | Inr tags \<Rightarrow> True)"
proof (induction db m and db ms rule: create_module_internal_resolve_imports.induct)
  case (1 db info valid restored code imps)
  then show ?case
    by (auto split: option.splits prod.splits sum.splits if_splits)
next
  case (2 db)
  show ?case by simp
next
  case (3 db imp rest)
  then show ?case
    by (auto split: option.splits prod.splits sum.splits if_splits)
qed

text \<open>
  The variant entry point touches the transaction only in \<^verbatim>\<open>create_module_internal\<close>:
  with any other status the transaction is the one it was called with.
\<close>

lemma create_module_from_variants_unchanged:
  assumes "create_module_from_variants db mdl module_name variant_data = Some (r, db')"
      and "r \<notin> {-4, -3, -2, 0, 1}"
  shows "db' = db"
proof (rule ccontr)
  assume ne: "db' \<noteq> db"
  from assms(1) ne obtain analyzed t where
    "create_module_internal db analyzed = (r, db', t)"
    by (auto simp: create_module_from_variants_def Let_def
             split: if_splits option.splits sum.splits prod.splits)
  then have "fst (create_module_internal db analyzed) = r" by simp
  with create_module_internal_status(1) [of db analyzed] assms(2) show False by simp
qed

text \<open>
  Claim C8, as the code has it. The loop checks the provided defaults in their order and
  returns at the first one that fails: with \<open>-6\<close> when its name is not a parameter of
  the (dereferenced) prototype, with \<open>-7\<close> when its type does not match the type of
  that parameter. Nothing has been added to the module then, and the importer is as it
  was. A module creation from variants that ends with \<open>-6\<close> or \<open>-7\<close> leaves the
  transaction unchanged.
\<close>

theorem first_failing_default_decides:
  assumes "dereference_prototype db kind prototype0 = Some prototype"
      and "defaults = pre @ (name, dflt) # post"
      and "check_defaults mdl (d_parameter_types prototype) pre = 0"
  shows "(get_type_by_name (d_parameter_types prototype) name = None
            \<longrightarrow> add_variant db mdl kind symbol_importer module prototype0 variant_name
                  (Some defaults) annotation_block = Some (-6, module, symbol_importer))
       \<and> (\<forall>expected_type.
             get_type_by_name (d_parameter_types prototype) name = Some expected_type
             \<and> \<not> argument_type_matches_parameter_type mdl (get_type dflt) expected_type
            \<longrightarrow> add_variant db mdl kind symbol_importer module prototype0 variant_name
                  (Some defaults) annotation_block = Some (-7, module, symbol_importer))
       \<and> (\<forall>r db'. create_module_from_variants db mdl module_name variant_data = Some (r, db')
                   \<and> (r = -6 \<or> r = -7) \<longrightarrow> db' = db)"
proof (intro conjI allI impI)
  assume "get_type_by_name (d_parameter_types prototype) name = None"
  then have "check_defaults mdl (d_parameter_types prototype) defaults = -6"
    using assms(2,3) by (simp add: check_defaults_append)
  then show "add_variant db mdl kind symbol_importer module prototype0 variant_name
                  (Some defaults) annotation_block = Some (-6, module, symbol_importer)"
    using assms(1) by (simp add: add_variant_def)
next
  fix expected_type
  assume "get_type_by_name (d_parameter_types prototype) name = Some expected_type
             \<and> \<not> argument_type_matches_parameter_type mdl (get_type dflt) expected_type"
  then have "check_defaults mdl (d_parameter_types prototype) defaults = -7"
    using assms(2,3) by (simp add: check_defaults_append)
  then show "add_variant db mdl kind symbol_importer module prototype0 variant_name
                  (Some defaults) annotation_block = Some (-7, module, symbol_importer)"
    using assms(1) by (simp add: add_variant_def)
next
  fix r db'
  assume "create_module_from_variants db mdl module_name variant_data = Some (r, db')
                   \<and> (r = -6 \<or> r = -7)"
  then show "db' = db"
    by (auto dest: create_module_from_variants_unchanged)
qed

theorem first_failing_default_decides_witness:
  "add_variant example_db example_services Function_kind [] empty_module function_F ''F2''
       (Some [(''zz'', Constant 142 plain_float)]) None = Some (-6, empty_module, [])
   \<and> add_variant example_db example_services Function_kind [] empty_module function_F ''F2''
       (Some [(''x'', Constant 141 plain_bool)]) None = Some (-7, empty_module, [])
   \<and> create_module_from_variants example_db example_services ''::new'' mismatch_variants
       = Some (-7, example_db)"
proof -
  have d: "dereference_prototype example_db Function_kind function_F = Some function_F"
    by (simp add: dereference_prototype_def function_F_def)
  have c: "check_defaults example_services (d_parameter_types function_F) [] = 0" by simp
  have n: "get_type_by_name (d_parameter_types function_F) ''zz'' = None"
    by (simp add: get_type_by_name_def function_F_def)
  have t: "get_type_by_name (d_parameter_types function_F) ''x'' = Some uniform_float
           \<and> \<not> argument_type_matches_parameter_type example_services
                  (get_type (Constant 141 plain_bool)) uniform_float"
    by (simp add: get_type_by_name_def function_F_def example_services_def
          plain_bool_def uniform_float_def)
  have "\<exists>db'. create_module_from_variants example_db example_services ''::new''
                 mismatch_variants = Some (-7, db')"
    by (simp add: create_module_from_variants_def variants_module_def mismatch_variants_def
          is_valid_module_name_def existing_module_def name_to_tag_def add_mdl_db_prefix_def
          is_identifier_char_def example_services_def driver_simps variant_simps
          example_defs)
  then obtain db' where
    r: "create_module_from_variants example_db example_services ''::new''
          mismatch_variants = Some (-7, db')" ..
  note th1 = first_failing_default_decides
      [OF d _ c, of "[(''zz'', Constant 142 plain_float)]" "''zz''"
          "Constant 142 plain_float" "[]" "[]" empty_module "''F2''" None "''::new''"
          mismatch_variants]
  note th2 = first_failing_default_decides
      [OF d _ c, of "[(''x'', Constant 141 plain_bool)]" "''x''"
          "Constant 141 plain_bool" "[]" "[]" empty_module "''F2''" None "''::new''"
          mismatch_variants]
  from th1 n have a: "add_variant example_db example_services Function_kind [] empty_module
       function_F ''F2'' (Some [(''zz'', Constant 142 plain_float)]) None
     = Some (-6, empty_module, [])" by simp
  from th2 t have b: "add_variant example_db example_services Function_kind [] empty_module
       function_F ''F2'' (Some [(''x'', Constant 141 plain_bool)]) None
     = Some (-7, empty_module, [])" by simp
  from th2 r have "db' = example_db" by simp
  with a b r show ?thesis by simp
qed

text \<open>
  The claim as stated gives \<open>-6\<close> to every default with an unknown name and \<open>-7\<close> to
  every default with a type that does not match. With one default of each kind the first
  of the two decides: the unknown name \<open>zz\<close> after a mismatch yields \<open>-7\<close>, and the
  mismatch after \<open>zz\<close> yields \<open>-6\<close>.
\<close>

theorem later_default_status_counterexample:
  "get_type_by_name (d_parameter_types function_F) ''zz'' = None
   \<and> add_variant example_db example_services Function_kind [] empty_module function_F ''F2''
       (Some [(''x'', Constant 141 plain_bool), (''zz'', Constant 142 plain_float)]) None
     = Some (-7, empty_module, [])
   \<and> get_type_by_name (d_parameter_types function_F) ''x'' = Some uniform_float
   \<and> \<not> argument_type_matches_parameter_type example_services
          (get_type (Constant 141 plain_bool)) uniform_float
   \<and> add_variant example_db example_services Function_kind [] empty_module function_F ''F2''
       (Some [(''zz'', Constant 142 plain_float), (''x'', Constant 141 plain_bool)]) None
     = Some (-6, empty_module, [])"
  by (simp add: variant_simps function_F_def example_services_def
        plain_bool_def uniform_float_def plain_float_def)

subsection \<open>Collisions of definition names\<close>

text \<open>
  Registrations are only added, with valid tags, and a call of
  \<^verbatim>\<open>create_module_internal\<close> adds only names of the module and of its imports.
\<close>

lemma grows_refl: "grows db db names"
  by (simp add: grows_def)

lemma grows_trans:
  "grows db db1 A \<Longrightarrow> grows db1 db2 B \<Longrightarrow> A \<subseteq> C \<Longrightarrow> B \<subseteq> C \<Longrightarrow> grows db db2 C"
  unfolding grows_def
  apply (elim exE conjE)
  subgoal for a b
    by (rule exI [of _ "b @ a"]) auto
  done

lemma grows_mono: "grows db db' A \<Longrightarrow> A \<subseteq> B \<Longrightarrow> grows db db' B"
  unfolding grows_def by blast

lemma grows_keeps_name:
  assumes "grows db db' names" and "name_to_tag db n \<noteq> 0"
  shows "name_to_tag db' n \<noteq> 0"
proof -
  from assms(1) obtain added where a: "db_names db' = added @ db_names db"
    and z: "0 \<notin> snd ` set added" unfolding grows_def by blast
  show ?thesis
  proof (cases "map_of added n")
    case None
    with a assms(2) show ?thesis by (simp add: name_to_tag_def map_add_def)
  next
    case (Some t)
    then have "(n, t) \<in> set added" by (rule map_of_SomeD)
    with z have "t \<noteq> 0" by force
    with Some a show ?thesis by (simp add: name_to_tag_def map_add_def)
  qed
qed

lemma grows_reserve_tag: "reserve_tag db = (t, db') \<Longrightarrow> t \<noteq> 0 \<and> db_names db' = db_names db"
  by (auto simp: reserve_tag_def Let_def)

lemma grows_store:
  "store db e name = (t, db') \<Longrightarrow> grows db db' {name}"
  unfolding grows_def
  by (rule exI [of _ "[(name, t)]"])
     (auto simp: store_def store_at_def reserve_tag_def Let_def)

lemma grows_store_function_definitions:
  "grows db (store_function_definitions db t entries)
     (set (map (\<lambda>(n, d). add_mdl_db_prefix n) entries))"
proof (induction entries arbitrary: db)
  case Nil
  show ?case by (simp add: grows_refl)
next
  case (Cons x entries)
  obtain name d where x: "x = (name, d)" by (cases x)
  obtain ft db1 where r: "reserve_tag db = (ft, db1)" by (cases "reserve_tag db")
  define db2 where "db2 =
     (if d_is_exported d
      then store_at db1 ft (Mdl_function_definition (d\<lparr>d_module := t\<rparr>))
             (add_mdl_db_prefix name)
      else store_for_reference_counting db1 ft
             (Mdl_function_definition (d\<lparr>d_module := t\<rparr>)) (add_mdl_db_prefix name))"
  have g1: "grows db db2 {add_mdl_db_prefix name}"
  proof (cases "d_is_exported d")
    case True
    then show ?thesis
      unfolding grows_def db2_def using grows_reserve_tag [OF r]
      by (intro exI [of _ "[(add_mdl_db_prefix name, ft)]"]) (simp add: store_at_def)
  next
    case False
    then show ?thesis
      unfolding grows_def db2_def using grows_reserve_tag [OF r]
      by (intro exI [of _ "[]"]) (simp add: store_for_reference_counting_def)
  qed
  have step: "store_function_definitions db t (x # entries)
                = store_function_definitions db2 t entries"
    using x r by (simp add: db2_def)
  show ?case
    unfolding step
    by (rule grows_trans [OF g1 Cons.IH]) (auto simp: x)
qed

lemma grows_store_material_definitions:
  "grows db (store_material_definitions db t entries)
     (set (map (\<lambda>(n, d). add_mdl_db_prefix n) entries))"
proof (induction entries arbitrary: db)
  case Nil
  show ?case by (simp add: grows_refl)
next
  case (Cons x entries)
  obtain name d where x: "x = (name, d)" by (cases x)
  obtain ft db1 where r: "reserve_tag db = (ft, db1)" by (cases "reserve_tag db")
  define db2 where "db2 =
     (if d_is_exported d
      then store_at db1 ft (Mdl_material_definition (d\<lparr>d_module := t\<rparr>))
             (add_mdl_db_prefix name)
      else store_for_reference_counting db1 ft
             (Mdl_material_definition (d\<lparr>d_module := t\<rparr>)) (add_mdl_db_prefix name))"
  have g1: "grows db db2 {add_mdl_db_prefix name}"
  proof (cases "d_is_exported d")
    case True
    then show ?thesis
      unfolding grows_def db2_def using grows_reserve_tag [OF r]
      by (intro exI [of _ "[(add_mdl_db_prefix name, ft)]"]) (simp add: store_at_def)
  next
    case False
    then show ?thesis
      unfolding grows_def db2_def using grows_reserve_tag [OF r]
      by (intro exI [of _ "[]"]) (simp add: store_for_reference_counting_def)
  qed
  have step: "store_material_definitions db t (x # entries)
                = store_material_definitions db2 t entries"
    using x r by (simp add: db2_def)
  show ?case
    unfolding step
    by (rule grows_trans [OF g1 Cons.IH]) (auto simp: x)
qed

lemma create_module_internal_grows:
  "grows db (fst (snd (create_module_internal db m))) (set (module_names m))"
  "grows db (snd (resolve_imports db ms)) (set (concat (map module_names ms)))"
proof (induction db m and db ms rule: create_module_internal_resolve_imports.induct)
  case (1 db info valid restored code imps)
  show ?case
  proof (cases "valid \<and> name_to_tag db (add_mdl_db_prefix (mod_name info)) = 0 \<and> restored
                \<and> code \<noteq> None \<and> gc_error_message_count (the code) = 0")
    case False
    then have "fst (snd (create_module_internal db (IModule info valid restored code imps))) = db"
      by (auto split: option.splits)
    then show ?thesis by (simp add: grows_refl)
  next
    case True
    then obtain code_dag where code: "code = Some code_dag"
      and nerr: "\<not> gc_error_message_count code_dag > 0" by auto
    from True have pre: "valid" "\<not> name_to_tag db (add_mdl_db_prefix (mod_name info)) \<noteq> 0"
      "restored" by auto
    obtain x db1 where ri: "resolve_imports db imps = (x, db1)"
      by (cases "resolve_imports db imps")
    from pre have nn: "\<not> \<not> valid" "\<not> \<not> restored" by simp_all
    from 1 [OF nn(1) pre(2) nn(2) code nerr] ri
    have g1: "grows db db1 (set (concat (map module_names imps)))" by simp
    show ?thesis
    proof (cases "\<exists>tags. x = Inr tags \<and> \<not> name_in_use db1 (gc_functions code_dag)
                      \<and> \<not> name_in_use db1 (gc_materials code_dag)")
      case False
      then have "fst (snd (create_module_internal db (IModule info valid restored code imps)))
                   = db1"
        using pre code nerr ri by (cases x) auto
      with g1 show ?thesis
        by (auto intro: grows_mono)
    next
      case True
      then obtain tags where x: "x = Inr tags"
        and free: "\<not> name_in_use db1 (gc_functions code_dag)"
                  "\<not> name_in_use db1 (gc_materials code_dag)" by blast
      obtain mt db2 where st: "store db1
                              (Mdl_module
                                 \<lparr>m_module = info, m_imports = tags,
                                  m_functions =
                                    map (\<lambda>(n, d). add_mdl_db_prefix n) (gc_functions code_dag),
                                  m_materials =
                                    map (\<lambda>(n, d). add_mdl_db_prefix n) (gc_materials code_dag)\<rparr>)
                              (add_mdl_db_prefix (mod_name info)) = (mt, db2)"
        by (cases "store db1
                              (Mdl_module
                                 \<lparr>m_module = info, m_imports = tags,
                                  m_functions =
                                    map (\<lambda>(n, d). add_mdl_db_prefix n) (gc_functions code_dag),
                                  m_materials =
                                    map (\<lambda>(n, d). add_mdl_db_prefix n) (gc_materials code_dag)\<rparr>)
                              (add_mdl_db_prefix (mod_name info))")
      define db3 where "db3 = store_function_definitions db2 mt (gc_functions code_dag)"
      define db4 where "db4 = store_material_definitions db3 mt (gc_materials code_dag)"
      have res: "fst (snd (create_module_internal db (IModule info valid restored code imps)))
                   = db4"
        using pre code nerr ri x free st by (simp add: db3_def db4_def)
      let ?N = "set (module_names (IModule info valid restored code imps))"
      have s1: "set (concat (map module_names imps)) \<subseteq> ?N" by auto
      have s2: "{add_mdl_db_prefix (mod_name info)} \<subseteq> ?N" by simp
      have s3: "set (map (\<lambda>(n, d). add_mdl_db_prefix n) (gc_functions code_dag)) \<subseteq> ?N"
        using code by (auto simp: definition_names_def)
      have s4: "set (map (\<lambda>(n, d). add_mdl_db_prefix n) (gc_materials code_dag)) \<subseteq> ?N"
        using code by (auto simp: definition_names_def)
      have g2: "grows db db2 ?N"
        by (rule grows_trans [OF g1 grows_store [OF st] s1 s2])
      have g3: "grows db db3 ?N"
        unfolding db3_def
        by (rule grows_trans [OF g2 grows_store_function_definitions subset_refl s3])
      have g4: "grows db db4 ?N"
        unfolding db4_def
        by (rule grows_trans [OF g3 grows_store_material_definitions subset_refl s4])
      with res show ?thesis by simp
    qed
  qed
next
  case (2 db)
  show ?case by (simp add: grows_refl)
next
  case (3 db imp rest)
  show ?case
  proof (cases "name_to_tag db (add_mdl_db_prefix (get_name imp)) \<noteq> 0")
    case True
    show ?thesis
    proof (cases "get_class_id db (name_to_tag db (add_mdl_db_prefix (get_name imp)))
                    \<noteq> ID_MDL_MODULE")
      case c: True
      with True show ?thesis by (simp add: grows_refl)
    next
      case c: False
      from 3(1) [OF True c]
      have "grows db (snd (resolve_imports db rest)) (set (concat (map module_names rest)))" .
      moreover have "snd (resolve_imports db (imp # rest)) = snd (resolve_imports db rest)"
        using True c by (auto split: prod.splits sum.splits)
      ultimately show ?thesis by (auto intro: grows_mono)
    qed
  next
    case False
    obtain r db1 t where cm: "create_module_internal db imp = (r, db1, t)"
      by (cases "create_module_internal db imp") auto
    from 3(2) [OF False] cm have g1: "grows db db1 (set (module_names imp))" by simp
    show ?thesis
    proof (cases "r < 0")
      case True
      with False cm have "snd (resolve_imports db (imp # rest)) = db1" by simp
      with g1 show ?thesis by (auto intro: grows_mono)
    next
      case nf: False
      from 3(3) [OF False cm [symmetric] refl nf]
      have g2: "grows db1 (snd (resolve_imports db1 rest))
                  (set (concat (map module_names rest)))" .
      have "snd (resolve_imports db (imp # rest)) = snd (resolve_imports db1 rest)"
        using False cm nf by (auto split: prod.splits sum.splits)
      moreover have "grows db (snd (resolve_imports db1 rest))
                       (set (concat (map module_names (imp # rest))))"
        by (rule grows_trans [OF g1 g2]) auto
      ultimately show ?thesis by simp
    qed
  qed
qed

lemma grows_other_name:
  assumes "grows db db' names" and "n \<notin> names"
  shows "name_to_tag db' n = name_to_tag db n"
proof -
  from assms(1) obtain added where a: "db_names db' = added @ db_names db"
    and f: "fst ` set added \<subseteq> names" unfolding grows_def by blast
  from f assms(2) have "n \<notin> fst ` set added" by blast
  then have "map_of added n = None" by (simp add: map_of_eq_None_iff)
  with a show ?thesis by (simp add: name_to_tag_def map_add_def)
qed

lemma name_in_use_grows:
  assumes "grows db db' names" and "name_in_use db entries"
  shows "name_in_use db' entries"
proof -
  from assms(2) obtain n d where e: "(n, d) \<in> set entries"
    and u: "name_to_tag db (add_mdl_db_prefix n) \<noteq> 0"
    by (auto simp: name_in_use_def list_ex_iff)
  from grows_keeps_name [OF assms(1) u] e show ?thesis
    by (auto simp: name_in_use_def list_ex_iff)
qed

text \<open>
  Claim C1, as the code has it. When a database name of a function or material of the
  module has a tag already, \<^verbatim>\<open>create_module_internal\<close> does not return 0. It returns 1
  exactly when the module is valid and its own name is registered as a module (that
  check comes before the name checks), and then the transaction is as it was; in every
  other case the status is negative. The name checks come before the first store of the
  call: the transaction it leaves is the one it was given or the one that the loop over
  the imports left, and every name registered by the call is a name of an imported
  module or of one of its definitions.
\<close>

theorem name_collision_registers_nothing:
  assumes "compile m = Some code_dag"
      and "name_in_use db (gc_functions code_dag) \<or> name_in_use db (gc_materials code_dag)"
  shows "fst (create_module_internal db m) \<in> {-4, -3, -2, 1}
       \<and> (fst (create_module_internal db m) = 1
            \<longleftrightarrow> is_valid m \<and> name_to_tag db (add_mdl_db_prefix (get_name m)) \<noteq> 0
                \<and> get_class_id db (name_to_tag db (add_mdl_db_prefix (get_name m)))
                    = ID_MDL_MODULE)
       \<and> (fst (create_module_internal db m) = 1
            \<longrightarrow> fst (snd (create_module_internal db m)) = db)
       \<and> (fst (snd (create_module_internal db m)) = db
            \<or> fst (snd (create_module_internal db m)) = snd (resolve_imports db (get_imports m)))
       \<and> grows db (fst (snd (create_module_internal db m))) (set (import_names m))"
proof -
  obtain info valid restored code imps where m: "m = IModule info valid restored code imps"
    by (cases m)
  with assms(1) have code: "code = Some code_dag" by simp
  obtain x db1 where ri: "resolve_imports db imps = (x, db1)"
    by (cases "resolve_imports db imps")
  have g1: "grows db db1 (set (import_names m))"
    using create_module_internal_grows(2) [of db imps] ri m by (simp add: import_names_def)
  have used: "name_in_use db1 (gc_functions code_dag) \<or> name_in_use db1 (gc_materials code_dag)"
    using assms(2) name_in_use_grows [OF g1] by blast
  have x4: "r \<in> {-4, -3}" if "x = Inl r" for r
    using create_module_internal_status(2) [of db imps] ri that by simp
  show ?thesis
  proof (cases "valid \<and> name_to_tag db (add_mdl_db_prefix (mod_name info)) = 0 \<and> restored
                \<and> gc_error_message_count code_dag = 0")
    case False
    then have "fst (create_module_internal db m) \<in> {-4, -3, -2, 1}
       \<and> (fst (create_module_internal db m) = 1
            \<longleftrightarrow> is_valid m \<and> name_to_tag db (add_mdl_db_prefix (get_name m)) \<noteq> 0
                \<and> get_class_id db (name_to_tag db (add_mdl_db_prefix (get_name m)))
                    = ID_MDL_MODULE)
       \<and> fst (snd (create_module_internal db m)) = db"
      using m code by (auto simp: get_name_def)
    then show ?thesis by (auto simp: grows_refl)
  next
    case True
    then have free: "name_to_tag db (add_mdl_db_prefix (get_name m)) = 0"
      using m by (simp add: get_name_def)
    show ?thesis
    proof (cases x)
      case (Inl r)
      with True m code ri have "create_module_internal db m = (r, db1, 0)" by simp
      with x4 [OF Inl] g1 ri m free show ?thesis by auto
    next
      case (Inr tags)
      with True m code ri used have "create_module_internal db m = (-3, db1, 0)" by auto
      with g1 ri m free show ?thesis by auto
    qed
  qed
qed

lemmas registration_simps =
  name_to_tag_def add_mdl_db_prefix_def get_class_id_def access_def
  reserve_tag_def store_def store_at_def store_for_reference_counting_def
  name_in_use_def get_name_def import_names_def definition_names_def

theorem name_collision_registers_nothing_witness:
  "name_in_use example_db (gc_functions half_code)
   \<and> fst (create_module_internal example_db half_module) = -3
   \<and> name_to_tag (fst (snd (create_module_internal example_db half_module))) ''mdl::half'' = 0
   \<and> name_to_tag (fst (snd (create_module_internal example_db half_module))) ''mdl::half::f()''
       = 0
   \<and> name_to_tag (fst (snd (create_module_internal example_db half_module))) ''mdl::leaf'' \<noteq> 0
   \<and> name_in_use example_db (gc_functions (the (compile example_imodule)))
   \<and> fst (create_module_internal example_db example_imodule) = 1
   \<and> fst (snd (create_module_internal example_db example_imodule)) = example_db"
proof -
  have h1: "compile half_module = Some half_code"
    by (simp add: half_module_def)
  have h2: "name_in_use example_db (gc_functions half_code)"
    by (simp add: half_code_def registration_simps example_db_def)
  note t = name_collision_registers_nothing [OF h1 disjI1 [OF h2]]
  have n: "''mdl::half'' \<notin> set (import_names half_module)"
          "''mdl::half::f()'' \<notin> set (import_names half_module)"
    by (simp_all add: half_module_def leaf_module_def registration_simps)
  have z: "name_to_tag example_db ''mdl::half'' = 0"
          "name_to_tag example_db ''mdl::half::f()'' = 0"
    by (simp_all add: registration_simps example_db_def)
  from t have g: "grows example_db (fst (snd (create_module_internal example_db half_module)))
                    (set (import_names half_module))" by blast
  have a: "name_to_tag (fst (snd (create_module_internal example_db half_module)))
             ''mdl::half'' = 0"
    using grows_other_name [OF g n(1)] z(1) by simp
  have b: "name_to_tag (fst (snd (create_module_internal example_db half_module)))
             ''mdl::half::f()'' = 0"
    using grows_other_name [OF g n(2)] z(2) by simp
  have c: "fst (create_module_internal example_db half_module) = -3
           \<and> name_to_tag (fst (snd (create_module_internal example_db half_module)))
                ''mdl::leaf'' \<noteq> 0"
    by (simp add: half_module_def half_code_def leaf_module_def registration_simps
          example_db_def function_H_def)
  obtain code where e1: "compile example_imodule = Some code"
    by (simp add: example_imodule_def)
  have e2: "name_in_use example_db (gc_functions code)"
    using e1 by (auto simp: example_imodule_def registration_simps example_db_def)
  have e3: "is_valid example_imodule
            \<and> name_to_tag example_db (add_mdl_db_prefix (get_name example_imodule)) \<noteq> 0
            \<and> get_class_id example_db
                 (name_to_tag example_db (add_mdl_db_prefix (get_name example_imodule)))
                = ID_MDL_MODULE"
    by (simp add: example_imodule_def example_module_def registration_simps example_db_def)
  note u = name_collision_registers_nothing [OF e1 disjI1 [OF e2]]
  from u e3 have d: "fst (create_module_internal example_db example_imodule) = 1" by blast
  with u have e: "fst (snd (create_module_internal example_db example_imodule)) = example_db"
    by blast
  from e1 e2 have e2': "name_in_use example_db (gc_functions (the (compile example_imodule)))"
    by simp
  from h2 a b c e2' d e show ?thesis by blast
qed

text \<open>
  The claim as stated says that the call fails. For a module that is registered already,
  the names of its functions are registered too, and the call returns 1.
\<close>

theorem already_registered_module_counterexample:
  "compile example_imodule
     = Some \<lparr>gc_error_message_count = 0,
             gc_functions =
               [(''::example::F(float)'', function_F), (''::example::V()'', function_V),
                (''::example::W(float)'', function_W)],
             gc_materials = [(''::example::M(float)'', material_M)]\<rparr>
   \<and> name_to_tag example_db (add_mdl_db_prefix ''::example::F(float)'') = 2
   \<and> create_module_internal example_db example_imodule = (1, example_db, 1)"
  by (simp add: example_imodule_def example_module_def registration_simps example_db_def)

subsection \<open>A name that is registered already\<close>

lemma create_module_internal_existing:
  assumes "name_to_tag db (add_mdl_db_prefix (get_name m)) \<noteq> 0"
  shows "create_module_internal db m =
           (if \<not> is_valid m then (-2, db, 0)
            else if get_class_id db (name_to_tag db (add_mdl_db_prefix (get_name m)))
                      \<noteq> ID_MDL_MODULE then (-3, db, 0)
            else (1, db, name_to_tag db (add_mdl_db_prefix (get_name m))))"
  using assms by (cases m) (simp add: get_name_def)

text \<open>
  The loops that store the definitions reserve new tags: an element with a tag below
  the next free one stays as it is.
\<close>

lemma store_function_definitions_access:
  assumes "t0 < max 1 (db_next_tag db)"
  shows "access (store_function_definitions db mt entries) t0 = access db t0
       \<and> t0 < max 1 (db_next_tag (store_function_definitions db mt entries))"
  using assms
proof (induction entries arbitrary: db)
  case Nil
  then show ?case by simp
next
  case (Cons x entries)
  obtain name d where x: "x = (name, d)" by (cases x)
  define ft where "ft = max 1 (db_next_tag db)"
  define db1 where "db1 = db\<lparr>db_next_tag := Suc ft\<rparr>"
  have r: "reserve_tag db = (ft, db1)"
    by (simp add: reserve_tag_def Let_def ft_def db1_def)
  define db2 where "db2 =
     (if d_is_exported d
      then store_at db1 ft (Mdl_function_definition (d\<lparr>d_module := mt\<rparr>))
             (add_mdl_db_prefix name)
      else store_for_reference_counting db1 ft
             (Mdl_function_definition (d\<lparr>d_module := mt\<rparr>)) (add_mdl_db_prefix name))"
  have step: "store_function_definitions db mt (x # entries)
                = store_function_definitions db2 mt entries"
    using x r by (simp add: db2_def)
  from Cons.prems have lt: "t0 < ft" by (simp add: ft_def)
  have a: "access db2 t0 = access db t0"
    using lt by (simp add: db2_def db1_def access_def store_at_def
                   store_for_reference_counting_def)
  have n: "db_next_tag db2 = Suc ft"
    by (simp add: db2_def db1_def store_at_def store_for_reference_counting_def)
  from lt n have "t0 < max 1 (db_next_tag db2)" by simp
  from Cons.IH [OF this] a show ?case unfolding step by simp
qed

lemma store_material_definitions_access:
  assumes "t0 < max 1 (db_next_tag db)"
  shows "access (store_material_definitions db mt entries) t0 = access db t0
       \<and> t0 < max 1 (db_next_tag (store_material_definitions db mt entries))"
  using assms
proof (induction entries arbitrary: db)
  case Nil
  then show ?case by simp
next
  case (Cons x entries)
  obtain name d where x: "x = (name, d)" by (cases x)
  define ft where "ft = max 1 (db_next_tag db)"
  define db1 where "db1 = db\<lparr>db_next_tag := Suc ft\<rparr>"
  have r: "reserve_tag db = (ft, db1)"
    by (simp add: reserve_tag_def Let_def ft_def db1_def)
  define db2 where "db2 =
     (if d_is_exported d
      then store_at db1 ft (Mdl_material_definition (d\<lparr>d_module := mt\<rparr>))
             (add_mdl_db_prefix name)
      else store_for_reference_counting db1 ft
             (Mdl_material_definition (d\<lparr>d_module := mt\<rparr>)) (add_mdl_db_prefix name))"
  have step: "store_material_definitions db mt (x # entries)
                = store_material_definitions db2 mt entries"
    using x r by (simp add: db2_def)
  from Cons.prems have lt: "t0 < ft" by (simp add: ft_def)
  have a: "access db2 t0 = access db t0"
    using lt by (simp add: db2_def db1_def access_def store_at_def
                   store_for_reference_counting_def)
  have n: "db_next_tag db2 = Suc ft"
    by (simp add: db2_def db1_def store_at_def store_for_reference_counting_def)
  from lt n have "t0 < max 1 (db_next_tag db2)" by simp
  from Cons.IH [OF this] a show ?case unfolding step by simp
qed

text \<open>
  A call of \<^verbatim>\<open>create_module_internal\<close> that returns 0 has registered the name of the
  module as a module, under the tag it returns, unless one of the definitions of the
  module took the name afterwards.
\<close>

lemma create_module_internal_registers:
  assumes "create_module_internal db m = (0, db', t)"
      and "add_mdl_db_prefix (get_name m) \<notin> set (definition_names (compile m))"
  shows "name_to_tag db' (add_mdl_db_prefix (get_name m)) = t \<and> t \<noteq> 0
       \<and> get_class_id db' t = ID_MDL_MODULE"
proof -
  obtain info valid restored code imps where m: "m = IModule info valid restored code imps"
    by (cases m)
  let ?name = "add_mdl_db_prefix (mod_name info)"
  have imp_status: "resolve_imports db imps \<noteq> (Inl 0, d)" for d
    using create_module_internal_status(2) [of db imps] by auto
  from assms(1) [unfolded m] imp_status obtain code_dag tags db1 db2 e where
    code: "code = Some code_dag"
    and st: "store db1 e ?name = (t, db2)"
    and cl: "class_of e = ID_MDL_MODULE"
    and res: "db' = store_material_definitions
                     (store_function_definitions db2 t (gc_functions code_dag))
                     t (gc_materials code_dag)"
    by (auto split: if_splits option.splits sum.splits prod.splits)
  define db3 where "db3 = store_function_definitions db2 t (gc_functions code_dag)"
  from st have t: "t = max 1 (db_next_tag db1)"
    and n2: "name_to_tag db2 ?name = t"
    and a2: "access db2 t = Some e"
    and lt2: "t < max 1 (db_next_tag db2)"
    by (auto simp: store_def store_at_def reserve_tag_def Let_def name_to_tag_def access_def)
  from t have t0: "t \<noteq> 0" by simp
  from assms(2) m code have
    nf: "?name \<notin> set (map (\<lambda>(n, d). add_mdl_db_prefix n) (gc_functions code_dag))"
    and nm: "?name \<notin> set (map (\<lambda>(n, d). add_mdl_db_prefix n) (gc_materials code_dag))"
    by (auto simp: definition_names_def get_name_def)
  have n3: "name_to_tag db3 ?name = t"
    unfolding db3_def
    using grows_other_name [OF grows_store_function_definitions nf] n2 by simp
  have n4: "name_to_tag db' ?name = t"
    unfolding res db3_def [symmetric]
    using grows_other_name [OF grows_store_material_definitions nm] n3 by simp
  from store_function_definitions_access [OF lt2, of t "gc_functions code_dag"] a2
  have a3: "access db3 t = Some e" and lt3: "t < max 1 (db_next_tag db3)"
    by (simp_all add: db3_def)
  from store_material_definitions_access [OF lt3, of t "gc_materials code_dag"] a3
  have a4: "access db' t = Some e"
    unfolding res db3_def [symmetric] by simp
  from n4 t0 a4 cl m show ?thesis
    by (simp add: get_class_id_def get_name_def)
qed

lemma existing_module_status:
  "existing_module db module_name = Some r \<Longrightarrow> r = 1 \<or> r = -3"
  by (auto simp: existing_module_def Let_def split: if_splits)

lemma registered_module_exists:
  assumes "create_module_internal db m = (0, db', t)" and "carries_name module_name m"
  shows "existing_module db' module_name = Some 1"
proof -
  from assms(2) have g: "get_name m = module_name"
    and n: "add_mdl_db_prefix (get_name m) \<notin> set (definition_names (compile m))"
    by (simp_all add: carries_name_def)
  from create_module_internal_registers [OF assms(1) n] g show ?thesis
    by (simp add: existing_module_def Let_def)
qed

text \<open>
  Claim C6, as the code has it. Every entry point validates the module name first and
  returns \<open>-1\<close> for a name that fails (the stream entry point lets \<open>::<neuray>\<close>
  pass). For a name that passes and is registered already, the call returns 1 when the
  tag is a module and \<open>-3\<close> when it is of another class, in both cases with the
  transaction untouched and before any content is loaded;
  \<^verbatim>\<open>create_module_internal\<close> makes the same check after the validity of the loaded
  module, which yields \<open>-2\<close>. A call that returns 0 has registered the name as a
  module, so the same call made again on the transaction it left returns 1 and leaves
  that transaction as it is. This holds for each of the three entry points, for a
  loader and an analysis that deliver a module of the requested name.
\<close>

theorem registered_name_ends_creation:
  "(\<not> is_valid_module_name mdl module_name \<longrightarrow>
        create_module db mdl module_name = (-1, db)
      \<and> create_module_from_variants db mdl module_name variant_data = Some (-1, db)
      \<and> (module_name \<noteq> ''::<neuray>'' \<longrightarrow>
           create_module_from_stream db mdl module_name module_source = (-1, db)))
   \<and> (name_to_tag db (add_mdl_db_prefix module_name) \<noteq> 0 \<longrightarrow>
        (is_valid_module_name mdl module_name \<longrightarrow>
            create_module db mdl module_name
              = (if get_class_id db (name_to_tag db (add_mdl_db_prefix module_name))
                      = ID_MDL_MODULE then 1 else -3, db)
          \<and> create_module_from_variants db mdl module_name variant_data
              = Some (if get_class_id db (name_to_tag db (add_mdl_db_prefix module_name))
                           = ID_MDL_MODULE then 1 else -3, db))
      \<and> (is_valid_module_name mdl module_name \<or> module_name = ''::<neuray>'' \<longrightarrow>
            create_module_from_stream db mdl module_name module_source
              = (if get_class_id db (name_to_tag db (add_mdl_db_prefix module_name))
                      = ID_MDL_MODULE then 1 else -3, db))
      \<and> (get_name m = module_name \<longrightarrow>
            fst (create_module_internal db m)
              = (if \<not> is_valid m then -2
                 else if get_class_id db (name_to_tag db (add_mdl_db_prefix module_name))
                           = ID_MDL_MODULE then 1 else -3)
          \<and> fst (snd (create_module_internal db m)) = db))
   \<and> (\<forall>db' loaded.
         load_module mdl db module_name = Some loaded \<and> carries_name module_name loaded
         \<and> create_module db mdl module_name = (0, db')
        \<longrightarrow> create_module db' mdl module_name = (1, db'))
   \<and> (\<forall>db' loaded.
         load_module_from_stream mdl db module_name module_source = Some loaded
         \<and> carries_name module_name loaded
         \<and> create_module_from_stream db mdl module_name module_source = (0, db')
        \<longrightarrow> create_module_from_stream db' mdl module_name module_source = (1, db'))
   \<and> (\<forall>db' module.
         variants_module db mdl module_name variant_data = Some (Inr module)
         \<and> carries_name module_name (analyze mdl db module)
         \<and> create_module_from_variants db mdl module_name variant_data = Some (0, db')
        \<longrightarrow> create_module_from_variants db' mdl module_name variant_data = Some (1, db'))"
proof -
  have c: "\<not> is_valid_module_name mdl module_name \<longrightarrow>
        create_module db mdl module_name = (-1, db)
      \<and> create_module_from_variants db mdl module_name variant_data = Some (-1, db)
      \<and> (module_name \<noteq> ''::<neuray>'' \<longrightarrow>
           create_module_from_stream db mdl module_name module_source = (-1, db))"
    by (simp add: create_module_def create_module_from_variants_def
          create_module_from_stream_def)
  have reg: "(is_valid_module_name mdl module_name \<longrightarrow>
            create_module db mdl module_name
              = (if get_class_id db (name_to_tag db (add_mdl_db_prefix module_name))
                      = ID_MDL_MODULE then 1 else -3, db)
          \<and> create_module_from_variants db mdl module_name variant_data
              = Some (if get_class_id db (name_to_tag db (add_mdl_db_prefix module_name))
                           = ID_MDL_MODULE then 1 else -3, db))
      \<and> (is_valid_module_name mdl module_name \<or> module_name = ''::<neuray>'' \<longrightarrow>
            create_module_from_stream db mdl module_name module_source
              = (if get_class_id db (name_to_tag db (add_mdl_db_prefix module_name))
                      = ID_MDL_MODULE then 1 else -3, db))
      \<and> (get_name m = module_name \<longrightarrow>
            fst (create_module_internal db m)
              = (if \<not> is_valid m then -2
                 else if get_class_id db (name_to_tag db (add_mdl_db_prefix module_name))
                           = ID_MDL_MODULE then 1 else -3)
          \<and> fst (snd (create_module_internal db m)) = db)"
    if tag: "name_to_tag db (add_mdl_db_prefix module_name) \<noteq> 0"
  proof -
    have e: "existing_module db module_name
             = Some (if get_class_id db (name_to_tag db (add_mdl_db_prefix module_name))
                          = ID_MDL_MODULE then 1 else -3)"
      using tag by (simp add: existing_module_def Let_def)
    have a: "is_valid_module_name mdl module_name \<longrightarrow>
            create_module db mdl module_name
              = (if get_class_id db (name_to_tag db (add_mdl_db_prefix module_name))
                      = ID_MDL_MODULE then 1 else -3, db)
          \<and> create_module_from_variants db mdl module_name variant_data
              = Some (if get_class_id db (name_to_tag db (add_mdl_db_prefix module_name))
                           = ID_MDL_MODULE then 1 else -3, db)"
      using e by (simp add: create_module_def create_module_from_variants_def)
    have b: "is_valid_module_name mdl module_name \<or> module_name = ''::<neuray>'' \<longrightarrow>
            create_module_from_stream db mdl module_name module_source
              = (if get_class_id db (name_to_tag db (add_mdl_db_prefix module_name))
                      = ID_MDL_MODULE then 1 else -3, db)"
      using e by (auto simp: create_module_from_stream_def)
    have d: "get_name m = module_name \<longrightarrow>
            fst (create_module_internal db m)
              = (if \<not> is_valid m then -2
                 else if get_class_id db (name_to_tag db (add_mdl_db_prefix module_name))
                           = ID_MDL_MODULE then 1 else -3)
          \<and> fst (snd (create_module_internal db m)) = db"
      using tag create_module_internal_existing [of db m] by auto
    from a b d show ?thesis by blast
  qed
  have i1: "create_module db' mdl module_name = (1, db')"
    if l: "load_module mdl db module_name = Some loaded"
      and cn: "carries_name module_name loaded"
      and first: "create_module db mdl module_name = (0, db')" for db' loaded
  proof -
    from first l have v: "is_valid_module_name mdl module_name"
      and "\<exists>t. create_module_internal db loaded = (0, db', t)"
      by (auto simp: create_module_def dest: existing_module_status
               split: if_splits option.splits prod.splits)
    then obtain t where "create_module_internal db loaded = (0, db', t)" by blast
    from registered_module_exists [OF this cn] v show ?thesis
      by (simp add: create_module_def)
  qed
  have i2: "create_module_from_stream db' mdl module_name module_source = (1, db')"
    if l: "load_module_from_stream mdl db module_name module_source = Some loaded"
      and cn: "carries_name module_name loaded"
      and first: "create_module_from_stream db mdl module_name module_source = (0, db')"
    for db' loaded
  proof -
    from first l have v: "is_valid_module_name mdl module_name \<or> module_name = ''::<neuray>''"
      and "\<exists>t. create_module_internal db loaded = (0, db', t)"
      by (auto simp: create_module_from_stream_def dest: existing_module_status
               split: if_splits option.splits prod.splits)
    then obtain t where "create_module_internal db loaded = (0, db', t)" by blast
    from registered_module_exists [OF this cn] v show ?thesis
      by (auto simp: create_module_from_stream_def)
  qed
  have i3: "create_module_from_variants db' mdl module_name variant_data = Some (1, db')"
    if l: "variants_module db mdl module_name variant_data = Some (Inr module)"
      and cn: "carries_name module_name (analyze mdl db module)"
      and first: "create_module_from_variants db mdl module_name variant_data = Some (0, db')"
    for db' module
  proof -
    from first l have v: "is_valid_module_name mdl module_name"
      and "\<exists>t. create_module_internal db (analyze mdl db module) = (0, db', t)"
      by (auto simp: create_module_from_variants_def Let_def dest: existing_module_status
               split: if_splits option.splits prod.splits)
    then obtain t where "create_module_internal db (analyze mdl db module) = (0, db', t)"
      by blast
    from registered_module_exists [OF this cn] v show ?thesis
      by (simp add: create_module_from_variants_def)
  qed
  from c reg i1 i2 i3 show ?thesis by blast
qed

theorem registered_name_ends_creation_witness:
  "create_module example_db example_services ''::example'' = (1, example_db)
   \<and> create_module example_db example_services ''::image'' = (-3, example_db)
   \<and> create_module_from_stream example_db example_services ''::<neuray>'' [] = (1, example_db)
   \<and> create_module example_db example_services ''::dir/image'' = (-1, example_db)
   \<and> create_module_from_stream example_db example_services ''::dir/image'' []
        = (-1, example_db)
   \<and> fst (create_module example_db example_services ''::fresh'') = 0
   \<and> create_module (snd (create_module example_db example_services ''::fresh''))
         example_services ''::fresh''
       = (1, snd (create_module example_db example_services ''::fresh''))
   \<and> fst (create_module_from_stream example_db example_services ''::streamed'' []) = 0
   \<and> create_module_from_stream
         (snd (create_module_from_stream example_db example_services ''::streamed'' []))
         example_services ''::streamed'' []
       = (1, snd (create_module_from_stream example_db example_services ''::streamed'' []))
   \<and> map_option fst
        (create_module_from_variants example_db example_services ''::new'' example_variants)
       = Some 0
   \<and> create_module_from_variants
         (snd (the (create_module_from_variants example_db example_services ''::new''
                      example_variants)))
         example_services ''::new'' example_variants
       = Some (1, snd (the (create_module_from_variants example_db example_services ''::new''
                              example_variants)))"
proof -
  have v: "is_valid_module_name example_services ''::example''
           \<and> is_valid_module_name example_services ''::image''
           \<and> is_valid_module_name example_services ''::fresh''
           \<and> is_valid_module_name example_services ''::new''
           \<and> \<not> is_valid_module_name example_services ''::dir/image''"
    by (simp add: is_valid_module_name_def example_services_def is_identifier_char_def)
  have n1: "name_to_tag example_db (add_mdl_db_prefix ''::example'') \<noteq> 0"
    and n2: "name_to_tag example_db (add_mdl_db_prefix ''::image'') \<noteq> 0"
    and n3: "name_to_tag example_db (add_mdl_db_prefix ''::<neuray>'') \<noteq> 0"
    by (simp_all add: name_to_tag_def add_mdl_db_prefix_def example_db_def)
  have c1: "get_class_id example_db (name_to_tag example_db (add_mdl_db_prefix ''::example''))
              = ID_MDL_MODULE"
    and c2: "get_class_id example_db (name_to_tag example_db (add_mdl_db_prefix ''::image''))
              \<noteq> ID_MDL_MODULE"
    and c3: "get_class_id example_db (name_to_tag example_db (add_mdl_db_prefix ''::<neuray>''))
              = ID_MDL_MODULE"
    by (simp_all add: name_to_tag_def add_mdl_db_prefix_def get_class_id_def access_def
          example_db_def)
  note t1 = registered_name_ends_creation [of example_services "''::example''" example_db]
  note t2 = registered_name_ends_creation [of example_services "''::image''" example_db]
  note t3 = registered_name_ends_creation
              [of example_services "''::<neuray>''" example_db _ "[]"]
  note t4 = registered_name_ends_creation
              [of example_services "''::dir/image''" example_db _ "[]"]
  note t5 = registered_name_ends_creation [of example_services "''::fresh''" example_db]
  note t6 = registered_name_ends_creation
              [of example_services "''::streamed''" example_db _ "[]"]
  note t7 = registered_name_ends_creation
              [of example_services "''::new''" example_db example_variants]
  from t1 v n1 c1 have r1: "create_module example_db example_services ''::example''
                           = (1, example_db)" by simp
  from t2 v n2 c2 have r2: "create_module example_db example_services ''::image''
                           = (-3, example_db)" by simp
  from t3 n3 c3 have r3: "create_module_from_stream example_db example_services ''::<neuray>'' []
                           = (1, example_db)" by simp
  from t4 v have r4: "create_module example_db example_services ''::dir/image''
                           = (-1, example_db)" by simp
  from t4 v have r4s: "create_module_from_stream example_db example_services ''::dir/image'' []
                           = (-1, example_db)" by simp
  define db1 where "db1 = snd (create_module example_db example_services ''::fresh'')"
  have first: "create_module example_db example_services ''::fresh'' = (0, db1)"
    unfolding db1_def
    by (simp add: registry_simps example_services_def fresh_module_def example_db_def
          function_H_def)
  have l5: "load_module example_services example_db ''::fresh'' = Some fresh_module"
    by (simp add: example_services_def)
  have k5: "carries_name ''::fresh'' fresh_module"
    by (simp add: carries_name_def fresh_module_def get_name_def definition_names_def
          add_mdl_db_prefix_def)
  from t5 l5 k5 first have r5: "create_module db1 example_services ''::fresh'' = (1, db1)"
    by blast
  from first have f5: "fst (create_module example_db example_services ''::fresh'') = 0"
    by simp
  define db2 where
    "db2 = snd (create_module_from_stream example_db example_services ''::streamed'' [])"
  have first6: "create_module_from_stream example_db example_services ''::streamed'' []
                  = (0, db2)"
    unfolding db2_def
    by (simp add: registry_simps example_services_def streamed_module_def example_db_def
          function_H_def)
  have l6: "load_module_from_stream example_services example_db ''::streamed'' []
              = Some streamed_module"
    by (simp add: example_services_def)
  have k6: "carries_name ''::streamed'' streamed_module"
    by (simp add: carries_name_def streamed_module_def get_name_def definition_names_def
          add_mdl_db_prefix_def)
  from t6 l6 k6 first6
  have r6: "create_module_from_stream db2 example_services ''::streamed'' [] = (1, db2)"
    by blast
  from first6
  have f6: "fst (create_module_from_stream example_db example_services ''::streamed'' []) = 0"
    by simp
  have "\<exists>module. variants_module example_db example_services ''::new'' example_variants
          = Some (Inr module) \<and> am_name module = ''::new''"
    by (simp add: variants_module_def example_variants_def driver_simps variant_simps
          example_services_def example_defs Let_def)
  then obtain module where
    m: "variants_module example_db example_services ''::new'' example_variants
          = Some (Inr module)"
    and nm: "am_name module = ''::new''" by blast
  have k7: "carries_name ''::new'' (analyze example_services example_db module)"
    using nm
    by (simp add: carries_name_def example_services_def get_name_def definition_names_def)
  have ex: "existing_module example_db ''::new'' = None"
    by (simp add: existing_module_def name_to_tag_def add_mdl_db_prefix_def example_db_def)
  have st: "fst (create_module_internal example_db
                   (analyze example_services example_db module)) = 0"
    using nm
    by (simp add: example_services_def registry_simps example_db_def)
  have va: "is_valid (analyze example_services example_db module)"
    by (simp add: example_services_def)
  obtain db3 t where cmi: "create_module_internal example_db
                             (analyze example_services example_db module) = (0, db3, t)"
    using st by (cases "create_module_internal example_db
                          (analyze example_services example_db module)") auto
  have first7: "create_module_from_variants example_db example_services ''::new''
                  example_variants = Some (0, db3)"
    using v ex m va cmi
    by (simp add: create_module_from_variants_def Let_def)
  from t7 m k7 first7
  have r7: "create_module_from_variants db3 example_services ''::new'' example_variants
              = Some (1, db3)"
    by blast
  from first7 have f7: "map_option fst
        (create_module_from_variants example_db example_services ''::new'' example_variants)
       = Some 0" by simp
  from first7 have d3: "snd (the (create_module_from_variants example_db example_services
                                    ''::new'' example_variants)) = db3" by simp
  from r1 r2 r3 r4 r4s f5 r5 [unfolded db1_def] f6 r6 [unfolded db2_def] f7
       r7 [folded d3]
  show ?thesis
    by (intro conjI)
qed

text \<open>
  The claim as stated covers every module-creation call. The module \<open>::<neuray>\<close> is
  registered as a module, and creating it by name returns \<open>-1\<close>, not 1; the name
  \<open>::dir/image\<close> is registered under another class, and the call returns \<open>-1\<close>,
  not \<open>-3\<close>. The same holds after a successful first call: the stream entry point
  creates \<open>::<neuray>\<close> with status 0, and a second creation by name returns
  \<open>-1\<close>.
\<close>

theorem invalid_registered_name_counterexample:
  "name_to_tag example_db (add_mdl_db_prefix ''::<neuray>'') = 31
   \<and> get_class_id example_db 31 = ID_MDL_MODULE
   \<and> create_module example_db example_services ''::<neuray>'' = (-1, example_db)
   \<and> name_to_tag example_db (add_mdl_db_prefix ''::dir/image'') = 30
   \<and> get_class_id example_db 30 = ID_OTHER
   \<and> create_module example_db example_services ''::dir/image'' = (-1, example_db)
   \<and> create_module_from_stream blank_db example_services ''::<neuray>'' []
       = (0, \<lparr>db_names = [(''mdl::<neuray>'', 1)],
               db_elements =
                 [(1, Mdl_module \<lparr>m_module = m_module neuray_module, m_imports = [],
                                   m_functions = [], m_materials = []\<rparr>)],
               db_next_tag = 2\<rparr>)
   \<and> create_module
         \<lparr>db_names = [(''mdl::<neuray>'', 1)],
          db_elements =
            [(1, Mdl_module \<lparr>m_module = m_module neuray_module, m_imports = [],
                              m_functions = [], m_materials = []\<rparr>)],
          db_next_tag = 2\<rparr>
         example_services ''::<neuray>''
       = (-1, \<lparr>db_names = [(''mdl::<neuray>'', 1)],
                db_elements =
                  [(1, Mdl_module \<lparr>m_module = m_module neuray_module, m_imports = [],
                                    m_functions = [], m_materials = []\<rparr>)],
                db_next_tag = 2\<rparr>)"
  by (simp add: registry_simps example_services_def example_db_def blank_db_def
        neuray_imodule_def neuray_module_def Let_def)

end
